theory Spec2Isabelle
  imports Main
begin

section \<open>Strings as the Python code uses them\<close>

text \<open>
  Host names, addresses and configuration text are Python \<open>str\<close> values; they are modelled
  as \<open>string\<close> (lists of ASCII characters), which is what DNS names and the generated
  Caddyfile consist of.
\<close>

text \<open>\<open>s.startswith(p)\<close>\<close>

fun starts_with :: "string \<Rightarrow> string \<Rightarrow> bool" where
  "starts_with s [] = True"
| "starts_with [] (p # ps) = False"
| "starts_with (c # cs) (p # ps) = (c = p \<and> starts_with cs ps)"

text \<open>\<open>pat in s\<close> on strings: \<open>pat\<close> occurs somewhere in \<open>s\<close> as a contiguous run.\<close>

fun contains :: "string \<Rightarrow> string \<Rightarrow> bool" where
  "contains pat [] = (pat = [])"
| "contains pat (c # cs) = (starts_with (c # cs) pat \<or> contains pat cs)"

text \<open>\<open>s.endswith(suf)\<close>\<close>

definition ends_with :: "string \<Rightarrow> string \<Rightarrow> bool" where
  "ends_with s suf = (length suf \<le> length s \<and> drop (length s - length suf) s = suf)"

text \<open>\<open>s.lower()\<close> on ASCII text: the 26 capital letters are mapped, everything else is kept.\<close>

definition lower_char :: "char \<Rightarrow> char" where
  "lower_char c =
     (case map_of (zip ''ABCDEFGHIJKLMNOPQRSTUVWXYZ'' ''abcdefghijklmnopqrstuvwxyz'') c of
        Some l \<Rightarrow> l
      | None \<Rightarrow> c)"

definition lower :: "string \<Rightarrow> string" where
  "lower s = map lower_char s"

text \<open>\<open>s.split(sep)[0]\<close>: the text before the first separator (all of \<open>s\<close> if there is none).\<close>

definition split_first :: "char \<Rightarrow> string \<Rightarrow> string" where
  "split_first sep s = takeWhile (\<lambda>c. c \<noteq> sep) s"

text \<open>\<open>s.replace(a, b)\<close> for single characters.\<close>

definition replace_char :: "char \<Rightarrow> char \<Rightarrow> string \<Rightarrow> string" where
  "replace_char a b s = map (\<lambda>c. if c = a then b else c) s"

text \<open>\<open>sep.join(xs)\<close>\<close>

fun join :: "string \<Rightarrow> string list \<Rightarrow> string" where
  "join sep [] = []"
| "join sep [x] = x"
| "join sep (x # y # ys) = x @ sep @ join sep (y # ys)"

text \<open>Decimal text of a Python \<open>int\<close>, as \<open>str.format\<close> and f-strings print it.\<close>

function digits :: "nat \<Rightarrow> string" where
  "digits n =
     (if n < 10 then [''0123456789'' ! n]
      else digits (n div 10) @ [''0123456789'' ! (n mod 10)])"
  by pat_completeness auto
termination
  by (relation "measure id") auto

declare digits.simps [simp del]

definition str_int :: "int \<Rightarrow> string" where
  "str_int i = (if i < 0 then ''-'' @ digits (nat (- i)) else digits (nat i))"


section \<open>Caddy service manager (\<open>scripts/caddy-service-manager.py\<close>)\<close>

subsection \<open>Data\<close>

text \<open>
  The dictionaries of the script, as records. \<open>detected\<close> is both a value of
  \<open>service_patterns\<close> and an element of the list \<open>detect_services\<close> returns (keys
  \<open>type\<close>, \<open>port\<close>, \<open>protocol\<close>). \<open>service\<close> is an element of the list built by
  \<open>get_services_from_netbox\<close>. \<open>ip_data\<close> is one entry of the \<open>results\<close> array NetBox
  answers with; \<open>dns_name\<close> may be missing.
\<close>

record detected =
  det_type :: string
  det_port :: int
  det_protocol :: string

record service =
  hostname :: string
  ip :: string
  service_type :: string
  port :: int
  protocol :: string
  custom_config :: "(string \<times> string) list"

record ip_data =
  dns_name :: "string option"
  address :: string
  custom_fields :: "(string \<times> string) list"


subsection \<open>Service classifier: \<open>detect_services\<close>\<close>

text \<open>
  \<open>service_patterns\<close> is a dict literal; Python iterates it in insertion order, so it is
  an association list here.
\<close>

definition service_patterns :: "(string \<times> detected) list" where
  "service_patterns =
     [(''gitlab'', \<lparr>det_type = ''web'', det_port = 80, det_protocol = ''http''\<rparr>),
      (''git'', \<lparr>det_type = ''web'', det_port = 80, det_protocol = ''http''\<rparr>),
      (''netbox'', \<lparr>det_type = ''web'', det_port = 8080, det_protocol = ''http''\<rparr>),
      (''ipam'', \<lparr>det_type = ''web'', det_port = 8080, det_protocol = ''http''\<rparr>),
      (''grafana'', \<lparr>det_type = ''monitoring'', det_port = 3000, det_protocol = ''http''\<rparr>),
      (''prometheus'', \<lparr>det_type = ''monitoring'', det_port = 9090, det_protocol = ''http''\<rparr>),
      (''api'', \<lparr>det_type = ''api'', det_port = 8080, det_protocol = ''http''\<rparr>),
      (''docs'', \<lparr>det_type = ''docs'', det_port = 8000, det_protocol = ''http''\<rparr>),
      (''admin'', \<lparr>det_type = ''secure'', det_port = 8080, det_protocol = ''http''\<rparr>)]"

text \<open>
  The loop \<open>for pattern, config in service_patterns.items(): if pattern in hostname_lower:
  detected.append(...); break\<close>, started with \<open>detected = []\<close>.
\<close>

fun match_patterns :: "(string \<times> detected) list \<Rightarrow> string \<Rightarrow> detected list" where
  "match_patterns [] hostname_lower = []"
| "match_patterns ((pattern, config) # rest) hostname_lower =
     (if contains pattern hostname_lower
      then [\<lparr>det_type = det_type config, det_port = det_port config,
             det_protocol = det_protocol config\<rparr>]
      else match_patterns rest hostname_lower)"

definition detect_services ::
  "string \<Rightarrow> string \<Rightarrow> (string \<times> string) list \<Rightarrow> detected list" where
  "detect_services hostname_arg ip_arg custom_fields_arg =
     (let hostname_lower = lower hostname_arg;
          detected = match_patterns service_patterns hostname_lower
      in if detected = []
         then [\<lparr>det_type = ''web'', det_port = 80, det_protocol = ''http''\<rparr>]
         else detected)"


subsection \<open>Config renderer: \<open>generate_service_config\<close>, \<open>generate_main_caddyfile\<close>\<close>

text \<open>
  The three entries of \<open>service_templates\<close>. Each template is a \<open>str.format\<close> pattern with
  the fields \<open>hostname\<close>, \<open>ip\<close>, \<open>port\<close> and (in \<open>web\<close> only) \<open>service\<close>; it is
  modelled by the function that \<open>template.format(hostname=.., ip=.., port=.., service=..)\<close>
  computes: the doubled braces of the pattern are single braces of the result, and the
  port is passed as its decimal text. Every template starts with a line break.
\<close>

definition template_web :: "string \<Rightarrow> string \<Rightarrow> string \<Rightarrow> string \<Rightarrow> string" where
  \<open>template_web hostname_f ip_f port_f service_f =
     ''\<newline>'' @ hostname_f @ '' {\<newline>'' @
     ''    tls {\<newline>'' @
     ''        dns cloudflare {env.CLOUDFLARE_API_TOKEN}\<newline>'' @
     ''    }\<newline>'' @
     ''    reverse_proxy '' @ ip_f @ '':'' @ port_f @ '' {\<newline>'' @
     ''        header_up Host {upstream_hostport}\<newline>'' @
     ''        header_up X-Real-IP {remote_host}\<newline>'' @
     ''        header_up X-Forwarded-For {remote_host}\<newline>'' @
     ''        header_up X-Forwarded-Proto {scheme}\<newline>'' @
     ''    }\<newline>'' @
     ''    encode gzip\<newline>'' @
     ''    log {\<newline>'' @
     ''        output file /var/log/caddy/'' @ service_f @ ''-access.log\<newline>'' @
     ''        format json\<newline>'' @
     ''    }\<newline>'' @
     ''}''\<close>

definition template_api :: "string \<Rightarrow> string \<Rightarrow> string \<Rightarrow> string \<Rightarrow> string" where
  \<open>template_api hostname_f ip_f port_f service_f =
     ''\<newline>'' @ hostname_f @ '' {\<newline>'' @
     ''    tls {\<newline>'' @
     ''        dns cloudflare {env.CLOUDFLARE_API_TOKEN}\<newline>'' @
     ''    }\<newline>'' @
     ''    reverse_proxy '' @ ip_f @ '':'' @ port_f @ '' {\<newline>'' @
     ''        header_up Host {upstream_hostport}\<newline>'' @
     ''        header_up X-Real-IP {remote_host}\<newline>'' @
     ''        header_up X-Forwarded-For {remote_host}\<newline>'' @
     ''        header_up X-Forwarded-Proto {scheme}\<newline>'' @
     ''    }\<newline>'' @
     ''    # API-specific headers\<newline>'' @
     ''    header {\<newline>'' @
     ''        Access-Control-Allow-Origin *\<newline>'' @
     ''        Access-Control-Allow-Methods "GET, POST, PUT, DELETE, OPTIONS"\<newline>'' @
     ''        Access-Control-Allow-Headers "Content-Type, Authorization"\<newline>'' @
     ''    }\<newline>'' @
     ''    encode gzip\<newline>'' @
     ''}''\<close>

definition template_secure :: "string \<Rightarrow> string \<Rightarrow> string \<Rightarrow> string \<Rightarrow> string" where
  \<open>template_secure hostname_f ip_f port_f service_f =
     ''\<newline>'' @ hostname_f @ '' {\<newline>'' @
     ''    tls {\<newline>'' @
     ''        dns cloudflare {env.CLOUDFLARE_API_TOKEN}\<newline>'' @
     ''    }\<newline>'' @
     ''    reverse_proxy '' @ ip_f @ '':'' @ port_f @ '' {\<newline>'' @
     ''        header_up Host {upstream_hostport}\<newline>'' @
     ''        header_up X-Real-IP {remote_host}\<newline>'' @
     ''        header_up X-Forwarded-For {remote_host}\<newline>'' @
     ''        header_up X-Forwarded-Proto {scheme}\<newline>'' @
     ''    }\<newline>'' @
     ''    # Security headers\<newline>'' @
     ''    header {\<newline>'' @
     ''        Strict-Transport-Security "max-age=31536000; includeSubDomains; preload"\<newline>'' @
     ''        X-Frame-Options DENY\<newline>'' @
     ''        X-Content-Type-Options nosniff\<newline>'' @
     ''        X-XSS-Protection "1; mode=block"\<newline>'' @
     ''        Content-Security-Policy "default-src 'self'"\<newline>'' @
     ''    }\<newline>'' @
     ''    encode gzip\<newline>'' @
     ''}''\<close>

definition service_templates ::
  "(string \<times> (string \<Rightarrow> string \<Rightarrow> string \<Rightarrow> string \<Rightarrow> string)) list" where
  "service_templates =
     [(''web'', template_web), (''api'', template_api), (''secure'', template_secure)]"

text \<open>
  \<open>generate_service_config\<close>; the first argument is \<open>self.domain\<close>. The template key is
  \<open>'secure'\<close> when the host name (as given, not lower-cased) contains \<open>admin\<close>, else the
  service type; \<open>service_templates.get(key, service_templates['web'])\<close> falls back to the
  web template. \<open>prepare_hostname\<close> is the block "ensure it has domain": the domain is
  appended when the name does not end with it and has no dot.
\<close>

definition prepare_hostname :: "string \<Rightarrow> string \<Rightarrow> string" where
  "prepare_hostname domain hostname0 =
     (if \<not> ends_with hostname0 (''.'' @ domain)
      then (if CHR ''.'' \<notin> set hostname0 then hostname0 @ ''.'' @ domain else hostname0)
      else hostname0)"

definition generate_service_config :: "string \<Rightarrow> service \<Rightarrow> string" where
  "generate_service_config domain svc =
     (let template_key =
            (if contains ''admin'' (hostname svc) then ''secure'' else service_type svc);
          template =
            (case map_of service_templates template_key of
               Some t \<Rightarrow> t
             | None \<Rightarrow> template_web);
          hostname1 = prepare_hostname domain (hostname svc)
      in template hostname1 (ip svc) (str_int (port svc))
           (split_first (CHR ''.'') (hostname svc)))"

text \<open>
  The header of \<open>generate_main_caddyfile\<close>; \<open>now\<close> is \<open>datetime.now().isoformat()\<close>, read
  from the clock at each call.
\<close>

definition caddyfile_header :: "string \<Rightarrow> string \<Rightarrow> string" where
  "caddyfile_header domain now =
     ''# Auto-generated Caddyfile - '' @ now @ ''\<newline>'' @
     ''# Generated by Caddy Service Manager\<newline>'' @
     ''# DO NOT EDIT MANUALLY - Changes will be overwritten\<newline>'' @
     ''\<newline>'' @
     ''# Global configuration\<newline>'' @
     ''{\<newline>'' @
     ''    email admin@'' @ domain @ ''\<newline>'' @
     ''    auto_https on\<newline>'' @
     ''}\<newline>'' @
     ''\<newline>''"

definition generate_main_caddyfile :: "string \<Rightarrow> string \<Rightarrow> service list \<Rightarrow> string" where
  "generate_main_caddyfile domain now services =
     (let header = caddyfile_header domain now;
          service_configs = map (generate_service_config domain) services;
          full_config = header @ join ''\<newline>'' service_configs
      in full_config)"


subsection \<open>Collaborators and state of the reconciler\<close>

text \<open>
  What the script reads from outside in one run is a parameter of the model
  (\<open>caddy_env\<close>):
  \<^item> \<open>domain\<close>: \<open>self.domain\<close> (\<open>BASE_DOMAIN\<close>);
  \<^item> \<open>netbox_reply\<close>: the answer to the one \<open>requests.get\<close> of \<open>get_services_from_netbox\<close>,
    either a response with its status code and its \<open>results\<close> array, or an exception
    raised anywhere inside the \<open>try\<close> block (connection error, a body that is not the
    expected JSON), with its text;
  \<^item> \<open>now_isoformat\<close>, \<open>now_stamp\<close>: the clock, as \<open>datetime.now().isoformat()\<close> for the
    header and as \<open>strftime('%Y%m%d-%H%M%S')\<close> for the backup name;
  \<^item> \<open>temp_name\<close>: the name \<open>tempfile.NamedTemporaryFile\<close> picks;
  \<^item> \<open>caddy_validate\<close>: the outcome of \<open>subprocess.run(['caddy', 'validate', ...])\<close> on a
    file with the given content: it completes with a return code and its stderr text,
    or \<open>subprocess.run\<close> raises (the 30 s timeout expires, the program is missing);
  \<^item> \<open>caddy_reload\<close>: the same for \<open>caddy reload\<close>, given the content of the Caddyfile;
  \<^item> \<open>write_text_error\<close>: \<open>None\<close> when \<open>main_caddyfile.write_text\<close> succeeds, else the
    text of the exception it raises and what is at the Caddyfile's path afterwards;
  \<^item> \<open>service_write_error\<close>: \<open>None\<close> when the \<open>service_file.write_text\<close> of
    \<open>add_service_manually\<close> succeeds, else the text of the exception it raises (a host
    name with a slash names a file in a directory that need not exist).

  The state (\<open>caddy_state\<close>) is the part of the file system the script touches and the
  log: the Caddyfile \<open>/opt/caddy/Caddyfile\<close> (\<open>None\<close>: it does not exist), the directories
  \<open>/opt/caddy/backups\<close> (keyed by the path of the backup), \<open>/opt/caddy/services\<close> and the
  temporary directory (keyed by file name) as maps to the content of the files, and the
  records handed to \<open>logger\<close> (level and message; the pictograph that starts some
  messages is left out, with the blank after it). File names are plain names and
  copying a file that exists succeeds.
\<close>

datatype netbox_reply = RequestRaises string | Response nat "ip_data list"

datatype run_result = Completed int string | RunRaises string

datatype log_level = DEBUG | INFO | WARNING | ERROR

record caddy_env =
  domain :: string
  netbox_reply :: netbox_reply
  now_isoformat :: string
  now_stamp :: string
  temp_name :: string
  caddy_validate :: "string \<Rightarrow> run_result"
  caddy_reload :: "string option \<Rightarrow> run_result"
  write_text_error :: "(string \<times> string option) option"
  service_write_error :: "string option"

record caddy_state =
  main_caddyfile :: "string option"
  backup_dir :: "string \<rightharpoonup> string"
  services_config_dir :: "string \<rightharpoonup> string"
  temp_dir :: "string \<rightharpoonup> string"
  logged :: "(log_level \<times> string) list"

definition logger :: "log_level \<Rightarrow> string \<Rightarrow> caddy_state \<Rightarrow> caddy_state" where
  "logger level msg s = s\<lparr>logged := logged s @ [(level, msg)]\<rparr>"


subsection \<open>\<open>get_services_from_netbox\<close>\<close>

text \<open>
  The loop over \<open>response.json()['results']\<close>: an entry without a (non-empty) \<open>dns_name\<close>
  is skipped; for the others the CIDR suffix of the address is cut off and one
  \<open>service\<close> is appended per element of \<open>detect_services\<close>'s result.
  \<open>service.get('custom_config', {})\<close> is always the empty dict, since \<open>detect_services\<close>
  sets no such key.
\<close>

fun services_of_results :: "ip_data list \<Rightarrow> service list" where
  "services_of_results [] = []"
| "services_of_results (d # ds) =
     (case dns_name d of
        None \<Rightarrow> services_of_results ds
      | Some h \<Rightarrow>
          if h = [] then services_of_results ds
          else
            (let ip_address = split_first (CHR ''/'') (address d);
                 detected_services = detect_services h ip_address (custom_fields d)
             in map (\<lambda>sv. \<lparr>hostname = h, ip = ip_address, service_type = det_type sv,
                             port = det_port sv, protocol = det_protocol sv,
                             custom_config = []\<rparr>) detected_services
                @ services_of_results ds))"

definition get_services_from_netbox ::
  "caddy_env \<Rightarrow> caddy_state \<Rightarrow> service list \<times> caddy_state" where
  "get_services_from_netbox env s =
     (case netbox_reply env of
        RequestRaises e \<Rightarrow>
          ([], logger ERROR (''Error getting services from NetBox: '' @ e) s)
      | Response status_code results \<Rightarrow>
          if status_code \<noteq> 200
          then ([], logger ERROR
                      (''Failed to get IPs from NetBox: '' @ digits status_code) s)
          else
            (let services = services_of_results results
             in (services,
                 logger INFO (''Retrieved '' @ digits (length services) @
                              '' services from NetBox'') s)))"


subsection \<open>\<open>backup_current_config\<close>, \<open>validate_caddy_config\<close>, \<open>reload_caddy\<close>\<close>

text \<open>
  \<open>backup_current_config\<close> returns the path of the backup, or the empty string when
  there is no Caddyfile to copy.
\<close>

definition backup_current_config :: "caddy_env \<Rightarrow> caddy_state \<Rightarrow> string \<times> caddy_state" where
  "backup_current_config env s =
     (let timestamp = now_stamp env;
          backup_file = ''/opt/caddy/backups/Caddyfile.backup.'' @ timestamp
      in case main_caddyfile s of
           Some content \<Rightarrow>
             (backup_file,
              logger INFO (''Backed up Caddyfile to '' @ backup_file)
                (s\<lparr>backup_dir := (backup_dir s)(backup_file \<mapsto> content)\<rparr>))
         | None \<Rightarrow> ([], s))"

text \<open>
  \<open>validate_caddy_config\<close>: the temporary file is created with \<open>delete=False\<close>, so it
  stays until \<open>os.unlink\<close>. The \<open>unlink\<close> is the statement after \<open>subprocess.run\<close> inside
  the \<open>try\<close>; when \<open>subprocess.run\<close> raises, control goes to the \<open>except\<close> clause, which
  logs and returns \<open>False\<close>.
\<close>

definition validate_caddy_config ::
  "caddy_env \<Rightarrow> string \<Rightarrow> caddy_state \<Rightarrow> bool \<times> caddy_state" where
  "validate_caddy_config env config_content s =
     (let temp_file_path = temp_name env;
          s1 = s\<lparr>temp_dir := (temp_dir s)(temp_file_path \<mapsto> config_content)\<rparr>
      in case caddy_validate env config_content of
           RunRaises e \<Rightarrow>
             (False, logger ERROR (''Error validating Caddy config: '' @ e) s1)
         | Completed returncode stderr \<Rightarrow>
             (let s2 = s1\<lparr>temp_dir := (temp_dir s1)(temp_file_path := None)\<rparr>
              in if returncode = 0
                 then (True, logger INFO ''Caddy configuration is valid'' s2)
                 else (False, logger ERROR
                                (''Caddy configuration validation failed: '' @ stderr) s2)))"

definition reload_caddy :: "caddy_env \<Rightarrow> caddy_state \<Rightarrow> bool \<times> caddy_state" where
  "reload_caddy env s =
     (case caddy_reload env (main_caddyfile s) of
        RunRaises e \<Rightarrow> (False, logger ERROR (''Error reloading Caddy: '' @ e) s)
      | Completed returncode stderr \<Rightarrow>
          if returncode = 0
          then (True, logger INFO ''Caddy reloaded successfully'' s)
          else (False, logger ERROR (''Caddy reload failed: '' @ stderr) s))"


subsection \<open>The reconciliation cycle: \<open>update_caddy_configuration\<close>\<close>

text \<open>
  The guard \<open>if backup_file and Path(backup_file).exists()\<close> with the copy-back
  \<open>shutil.copy2(backup_file, self.main_caddyfile)\<close> and the log record that follows it,
  as both the \<open>else\<close> branch and the \<open>except\<close> clause have it.
\<close>

definition restore_backup ::
  "string \<Rightarrow> log_level \<Rightarrow> string \<Rightarrow> caddy_state \<Rightarrow> caddy_state" where
  "restore_backup backup_file level msg s =
     (if backup_file \<noteq> [] \<and> backup_dir s backup_file \<noteq> None
      then logger level msg (s\<lparr>main_caddyfile := backup_dir s backup_file\<rparr>)
      else s)"

text \<open>The summary logged after a successful reload, one record per service.\<close>

definition log_service_summary :: "service list \<Rightarrow> caddy_state \<Rightarrow> caddy_state" where
  "log_service_summary services s =
     foldl (\<lambda>st svc. logger INFO (''   '' @ hostname svc @ '' -> '' @ ip svc @ '':'' @
                                    str_int (port svc)) st)
       (logger INFO ''Configured services:'' s) services"

definition update_caddy_configuration :: "caddy_env \<Rightarrow> caddy_state \<Rightarrow> bool \<times> caddy_state" where
  "update_caddy_configuration env s0 =
     (let s1 = logger INFO ''Starting Caddy configuration update'' s0;
          (services, s2) = get_services_from_netbox env s1
      in if services = []
         then (False, logger WARNING ''No services found in NetBox'' s2)
         else
           (let new_config = generate_main_caddyfile (domain env) (now_isoformat env) services;
                (valid, s3) = validate_caddy_config env new_config s2
            in if \<not> valid
               then (False, logger ERROR ''Configuration validation failed, aborting update'' s3)
               else
                 (let (backup_file, s4) = backup_current_config env s3
                  in case write_text_error env of
                       Some (e, left) \<Rightarrow>
                         (let s5 = logger ERROR (''Error updating configuration: '' @ e)
                                     (s4\<lparr>main_caddyfile := left\<rparr>)
                          in (False, restore_backup backup_file INFO
                                       ''Restored backup configuration after error'' s5))
                     | None \<Rightarrow>
                         (let s5 = logger INFO
                                     (''Updated Caddyfile with '' @ digits (length services) @
                                      '' services'')
                                     (s4\<lparr>main_caddyfile := Some new_config\<rparr>);
                              (reloaded, s6) = reload_caddy env s5
                          in if reloaded
                             then (True, log_service_summary services
                                           (logger INFO
                                              ''Caddy configuration updated successfully'' s6))
                             else (False, restore_backup backup_file ERROR
                                            ''Caddy reload failed, restored backup configuration''
                                            s6)))))"


subsection \<open>\<open>add_service_manually\<close> and the command line\<close>

text \<open>
  \<open>add_service_manually\<close>. The \<open>service_file.write_text\<close> is outside any \<open>try\<close>: when it
  raises, the exception leaves the function (\<open>Inl\<close>, with its text and the state reached)
  and the cycle is not run; otherwise the result is that of
  \<open>update_caddy_configuration\<close> (\<open>Inr\<close>).
\<close>

definition add_service_manually ::
  "caddy_env \<Rightarrow> string \<Rightarrow> string \<Rightarrow> int \<Rightarrow> string \<Rightarrow> caddy_state \<Rightarrow>
   (string \<times> caddy_state) + (bool \<times> caddy_state)" where
  "add_service_manually env hostname_arg ip_arg port_arg service_type_arg s0 =
     (let s1 = logger INFO (''Adding service manually: '' @ hostname_arg @ '' -> '' @ ip_arg @
                            '':'' @ str_int port_arg) s0;
          svc = \<lparr>hostname = hostname_arg, ip = ip_arg, service_type = service_type_arg,
                 port = port_arg, protocol = ''http'', custom_config = []\<rparr>;
          service_config = generate_service_config (domain env) svc;
          service_file = replace_char (CHR ''.'') (CHR ''_'') hostname_arg @ ''.caddyfile''
      in case service_write_error env of
           Some e \<Rightarrow> Inl (e, s1)
         | None \<Rightarrow>
             Inr (update_caddy_configuration env
                    (s1\<lparr>services_config_dir :=
                          (services_config_dir s1)(service_file \<mapsto> service_config)\<rparr>)))"

text \<open>
  \<open>main\<close> for the options \<open>--update\<close> and \<open>--add HOSTNAME IP PORT TYPE\<close> (with \<open>PORT\<close>
  already converted by \<open>int\<close>): the process exit status is \<open>0 if success else 1\<close>, and 1
  when an exception ends the process.
\<close>

definition exit_status :: "bool \<Rightarrow> int" where
  "exit_status success = (if success then 0 else 1)"

definition main_update :: "caddy_env \<Rightarrow> caddy_state \<Rightarrow> int \<times> caddy_state" where
  "main_update env s =
     (let (success, s') = update_caddy_configuration env s in (exit_status success, s'))"

definition main_add ::
  "caddy_env \<Rightarrow> string \<Rightarrow> string \<Rightarrow> int \<Rightarrow> string \<Rightarrow> caddy_state \<Rightarrow> int \<times> caddy_state" where
  "main_add env hostname_arg ip_arg port_arg service_type_arg s =
     (case add_service_manually env hostname_arg ip_arg port_arg service_type_arg s of
        Inl (e, s') \<Rightarrow> (1, s')
      | Inr (success, s') \<Rightarrow> (exit_status success, s'))"

subsection \<open>A concrete run, for evaluating the model\<close>

text \<open>
  NetBox answers with two active addresses, one of them without a DNS name; the checker
  accepts every file and the reload succeeds; a Caddyfile exists.
\<close>

definition example_results :: "ip_data list" where
  "example_results =
     [\<lparr>dns_name = Some ''git.doofus.co'', address = ''10.203.1.5/24'', custom_fields = []\<rparr>,
      \<lparr>dns_name = None, address = ''10.203.1.6/24'', custom_fields = []\<rparr>]"

definition example_env :: caddy_env where
  "example_env =
     \<lparr>domain = ''doofus.co'',
      netbox_reply = Response 200 example_results,
      now_isoformat = ''2025-01-01T00:00:00'',
      now_stamp = ''20250101-000000'',
      temp_name = ''tmpk3x9.caddyfile'',
      caddy_validate = (\<lambda>content. Completed 0 []),
      caddy_reload = (\<lambda>content. Completed 0 []),
      write_text_error = None,
      service_write_error = None\<rparr>"

definition example_state :: caddy_state where
  "example_state =
     \<lparr>main_caddyfile = Some ''# previous Caddyfile'',
      backup_dir = Map.empty,
      services_config_dir = Map.empty,
      temp_dir = Map.empty,
      logged = []\<rparr>"


section \<open>Discovery agent (\<open>configs/netbox/discovery-scripts/discovery-agent.py\<close>)\<close>

subsection \<open>Data, collaborators and state\<close>

text \<open>
  \<open>host_info\<close> is the dict \<open>perform_network_scan\<close> builds for a host that is up,
  \<open>observed_service\<close> the dict \<open>perform_service_scan\<close> builds for an open port,
  \<open>netbox_data\<close> the payload \<open>update_netbox_ip\<close> sends (the two custom fields flattened
  into it; \<open>dns_name\<close> is present only when the host has a name), \<open>report\<close> the dict of
  \<open>generate_network_report\<close>.
\<close>

record observed_service =
  os_port :: nat
  os_protocol :: string
  os_service :: string
  os_version :: string
  os_product :: string

record host_info =
  host_ip :: string
  host_hostname :: "string option"
  mac_address :: "string option"
  vendor :: "string option"
  last_seen :: string
  host_services :: "observed_service list"

record netbox_data =
  nb_address :: string
  nb_status :: string
  nb_description :: string
  nb_last_seen :: string
  nb_discovery_method :: string
  nb_dns_name :: "string option"

record report =
  timestamp :: string
  networks_scanned :: "string list"
  total_hosts :: nat
  active_hosts :: nat
  new_hosts :: nat
  updated_hosts :: nat
  dns_synced :: nat
  services_discovered :: nat

text \<open>
  The collaborators of one run (\<open>discovery_env\<close>). An HTTP request either raises or is
  answered with a status code.
  \<^item> \<open>connection_reply\<close>: the \<open>GET /api/\<close> of \<open>test_netbox_connection\<close>;
  \<^item> \<open>site\<close>: what \<open>get_or_create_site("Homelab")\<close> returns, the id of the site or
    \<open>None\<close>;
  \<^item> \<open>discovery_networks\<close>: \<open>DISCOVERY_NETWORKS\<close>, split at commas;
  \<^item> \<open>network_scan\<close>, \<open>service_scan\<close>: what \<open>perform_network_scan\<close> and
    \<open>perform_service_scan\<close> return for a network and for an address (both return the
    empty list when the scan fails);
  \<^item> \<open>ip_lookup_reply\<close>, \<open>ip_write_reply\<close>: for an address, the outcome of the \<open>GET\<close>
    that looks the address up and of the \<open>PATCH\<close> or \<open>POST\<close> that follows;
  \<^item> \<open>technitium_token\<close>: \<open>TECHNITIUM_API_TOKEN\<close>; \<open>dns_reply\<close>: for a record name, the
    outcome of the \<open>POST\<close> to the DNS server;
  \<^item> \<open>report_timestamp\<close>: the clock when the report is created.

  The state (\<open>discovery_state\<close>) is what the two stores hold: NetBox's table of IP
  addresses, in the order NetBox lists them, and the records added to the DNS zone
  (name and address). A write that is answered with a success status has taken effect,
  any other write has not. \<open>get_or_create_prefix\<close>, whose result the run does not use, the
  log and the duration (a clock difference) are left out.
\<close>

datatype http_reply = Raises string | Status nat

record discovery_env =
  connection_reply :: http_reply
  site :: "nat option"
  discovery_networks :: "string list"
  network_scan :: "string \<Rightarrow> host_info list"
  service_scan :: "string \<Rightarrow> observed_service list"
  ip_lookup_reply :: "string \<Rightarrow> http_reply"
  ip_write_reply :: "string \<Rightarrow> http_reply"
  technitium_token :: "string option"
  dns_reply :: "string \<Rightarrow> http_reply"
  report_timestamp :: string

record discovery_state =
  ip_addresses :: "netbox_data list"
  dns_records :: "(string \<times> string) list"

text \<open>
  \<open>run_discovery\<close> returns \<open>{'status': 'failed', 'reason': ...}\<close> or the report with
  \<open>'status': 'completed'\<close>.
\<close>

datatype discovery_result = DiscoveryFailed string | DiscoveryCompleted report

text \<open>
  \<open>s.strip()\<close>: white space is removed at both ends, that is the characters for which
  \<open>str.isspace\<close> holds (of the code points below 256).
\<close>

definition is_space :: "char \<Rightarrow> bool" where
  "is_space c = (c \<in> set [CHR '' '', CHR 0x09, CHR 0x0A, CHR 0x0B, CHR 0x0C, CHR 0x0D,
                           CHR 0x1C, CHR 0x1D, CHR 0x1E, CHR 0x1F, CHR 0x85, CHR 0xA0])"

definition strip :: "string \<Rightarrow> string" where
  "strip s = rev (dropWhile is_space (rev (dropWhile is_space s)))"


subsection \<open>\<open>test_netbox_connection\<close>, \<open>update_netbox_ip\<close>, \<open>sync_to_dns\<close>\<close>

definition test_netbox_connection :: "discovery_env \<Rightarrow> bool" where
  "test_netbox_connection env =
     (case connection_reply env of
        Raises e \<Rightarrow> False
      | Status status_code \<Rightarrow> status_code = 200)"

text \<open>
  The \<open>PATCH\<close> to \<open>/api/ipam/ip-addresses/{ip_id}/\<close>, where \<open>ip_id\<close> is the id of
  \<open>results[0]\<close>, the first record with the address: the fields of the payload replace
  those of that record; \<open>dns_name\<close> is replaced only when the payload has it.
\<close>

definition patch_fields :: "netbox_data \<Rightarrow> netbox_data \<Rightarrow> netbox_data" where
  "patch_fields payload old =
     payload\<lparr>nb_dns_name := (case nb_dns_name payload of
                                None \<Rightarrow> nb_dns_name old
                              | Some h \<Rightarrow> Some h)\<rparr>"

fun patch_first :: "string \<Rightarrow> netbox_data \<Rightarrow> netbox_data list \<Rightarrow> netbox_data list" where
  "patch_first ip_address payload [] = []"
| "patch_first ip_address payload (d # ds) =
     (if nb_address d = ip_address then patch_fields payload d # ds
      else d # patch_first ip_address payload ds)"

text \<open>
  The dict \<open>netbox_data\<close> that \<open>update_netbox_ip\<close> builds from the host:
  \<open>ip_data['last_seen'][:10]\<close> is the date part of the time stamp, and \<open>dns_name\<close> is set
  \<open>if ip_data.get('hostname')\<close>.
\<close>

definition build_netbox_data :: "host_info \<Rightarrow> netbox_data" where
  "build_netbox_data ip_data_arg =
     (let payload0 =
            \<lparr>nb_address = host_ip ip_data_arg,
             nb_status = ''active'',
             nb_description = ''Auto-discovered on '' @ take 10 (last_seen ip_data_arg),
             nb_last_seen = last_seen ip_data_arg,
             nb_discovery_method = ''network_scan'',
             nb_dns_name = None\<rparr>
      in case host_hostname ip_data_arg of
           None \<Rightarrow> payload0
         | Some h \<Rightarrow> if h = [] then payload0 else payload0\<lparr>nb_dns_name := Some h\<rparr>)"

text \<open>
  \<open>update_netbox_ip\<close>: \<open>count\<close> is \<open>response.json()['count']\<close> of the lookup, read only
  when its status is 200. An exception anywhere in the body is caught and gives
  \<open>False\<close>.
\<close>

definition update_netbox_ip ::
  "discovery_env \<Rightarrow> host_info \<Rightarrow> discovery_state \<Rightarrow> bool \<times> discovery_state" where
  "update_netbox_ip env ip_data_arg st =
     (let ip_address = host_ip ip_data_arg
      in case ip_lookup_reply env ip_address of
           Raises e \<Rightarrow> (False, st)
         | Status lookup_status \<Rightarrow>
             (let payload = build_netbox_data ip_data_arg;
                  count = length (filter (\<lambda>d. nb_address d = ip_address) (ip_addresses st))
              in if lookup_status = 200 \<and> count > 0
                 then
                   (case ip_write_reply env ip_address of
                      Raises e \<Rightarrow> (False, st)
                    | Status write_status \<Rightarrow>
                        if write_status = 200 \<or> write_status = 201
                        then (True, st\<lparr>ip_addresses :=
                                         patch_first ip_address payload (ip_addresses st)\<rparr>)
                        else (False, st))
                 else
                   (case ip_write_reply env ip_address of
                      Raises e \<Rightarrow> (False, st)
                    | Status write_status \<Rightarrow>
                        if write_status = 200 \<or> write_status = 201
                        then (True, st\<lparr>ip_addresses := ip_addresses st @ [payload]\<rparr>)
                        else (False, st))))"

definition sync_to_dns ::
  "discovery_env \<Rightarrow> host_info \<Rightarrow> discovery_state \<Rightarrow> bool \<times> discovery_state" where
  "sync_to_dns env ip_data_arg st =
     (if technitium_token env = None \<or> technitium_token env = Some []
         \<or> host_hostname ip_data_arg = None \<or> host_hostname ip_data_arg = Some []
      then (False, st)
      else
        (case host_hostname ip_data_arg of
           None \<Rightarrow> (False, st)
         | Some h \<Rightarrow>
             (let dns_domain = split_first (CHR ''.'') h @ ''.doofus.co''
              in case dns_reply env dns_domain of
                   Raises e \<Rightarrow> (False, st)
                 | Status status_code \<Rightarrow>
                     if status_code = 200
                     then (True, st\<lparr>dns_records :=
                                      dns_records st @ [(dns_domain, host_ip ip_data_arg)]\<rparr>)
                     else (False, st))))"


subsection \<open>\<open>run_discovery\<close>\<close>

definition generate_network_report :: "discovery_env \<Rightarrow> report" where
  "generate_network_report env =
     \<lparr>timestamp = report_timestamp env,
      networks_scanned = discovery_networks env,
      total_hosts = 0, active_hosts = 0, new_hosts = 0, updated_hosts = 0,
      dns_synced = 0, services_discovered = 0\<rparr>"

text \<open>
  The body of the inner loop \<open>for host in discovered_hosts\<close>. The test for "interesting
  hosts" is a substring test on the text of the address.
\<close>

definition process_host ::
  "discovery_env \<Rightarrow> host_info \<Rightarrow> report \<times> discovery_state \<Rightarrow> report \<times> discovery_state" where
  "process_host env host acc =
     (let (report0, st0) = acc;
          report1 = report0\<lparr>total_hosts := total_hosts report0 + 1\<rparr>;
          interesting = (contains ''1'' (host_ip host) \<or> contains ''3'' (host_ip host)
                         \<or> contains ''10'' (host_ip host));
          host1 = (if interesting
                   then host\<lparr>host_services := service_scan env (host_ip host)\<rparr>
                   else host);
          report2 = (if interesting
                     then report1\<lparr>services_discovered :=
                                     services_discovered report1 + length (host_services host1)\<rparr>
                     else report1);
          (updated, st1) = update_netbox_ip env host1 st0;
          report3 = (if updated then report2\<lparr>updated_hosts := updated_hosts report2 + 1\<rparr>
                     else report2);
          (synced, st2) = sync_to_dns env host1 st1;
          report4 = (if synced then report3\<lparr>dns_synced := dns_synced report3 + 1\<rparr>
                     else report3);
          report5 = report4\<lparr>active_hosts := active_hosts report4 + 1\<rparr>
      in (report5, st2))"

fun process_hosts ::
  "discovery_env \<Rightarrow> host_info list \<Rightarrow> report \<times> discovery_state \<Rightarrow> report \<times> discovery_state" where
  "process_hosts env [] acc = acc"
| "process_hosts env (host # hosts) acc = process_hosts env hosts (process_host env host acc)"

text \<open>The outer loop \<open>for network in self.discovery_networks\<close>.\<close>

fun process_networks ::
  "discovery_env \<Rightarrow> string list \<Rightarrow> report \<times> discovery_state \<Rightarrow> report \<times> discovery_state" where
  "process_networks env [] acc = acc"
| "process_networks env (network # networks) acc =
     process_networks env networks
       (process_hosts env (network_scan env (strip network)) acc)"

definition run_discovery ::
  "discovery_env \<Rightarrow> discovery_state \<Rightarrow> discovery_result \<times> discovery_state" where
  "run_discovery env st =
     (if \<not> test_netbox_connection env
      then (DiscoveryFailed ''netbox_connection_failed'', st)
      else
        (case site env of
           None \<Rightarrow> (DiscoveryFailed ''site_creation_failed'', st)
         | Some site_id \<Rightarrow>
             (let (report_end, st_end) =
                    process_networks env (discovery_networks env)
                      (generate_network_report env, st)
              in (DiscoveryCompleted report_end, st_end))))"

text \<open>
  A concrete run: one network with three hosts; NetBox answers the write for
  \<open>10.203.1.20\<close> with status 400 and accepts the other two.
\<close>

definition example_hosts :: "host_info list" where
  "example_hosts =
     [\<lparr>host_ip = ''10.203.1.10'', host_hostname = Some ''gw.doofus.co'', mac_address = None,
       vendor = None, last_seen = ''2025-01-01T00:00:01'', host_services = []\<rparr>,
      \<lparr>host_ip = ''10.203.1.20'', host_hostname = None, mac_address = None,
       vendor = None, last_seen = ''2025-01-01T00:00:02'', host_services = []\<rparr>,
      \<lparr>host_ip = ''10.203.1.30'', host_hostname = None, mac_address = None,
       vendor = None, last_seen = ''2025-01-01T00:00:03'', host_services = []\<rparr>]"

definition example_discovery_env :: discovery_env where
  "example_discovery_env =
     \<lparr>connection_reply = Status 200,
      site = Some 1,
      discovery_networks = ['' 10.203.1.0/24''],
      network_scan = (\<lambda>network. if network = ''10.203.1.0/24'' then example_hosts else []),
      service_scan = (\<lambda>a. []),
      ip_lookup_reply = (\<lambda>a. Status 200),
      ip_write_reply = (\<lambda>a. if a = ''10.203.1.20'' then Status 400 else Status 201),
      technitium_token = None,
      dns_reply = (\<lambda>name. Status 200),
      report_timestamp = ''2025-01-01T00:00:00''\<rparr>"

definition example_discovery_state :: discovery_state where
  "example_discovery_state =
     \<lparr>ip_addresses =
        [\<lparr>nb_address = ''10.203.1.10'', nb_status = ''active'',
          nb_description = ''Auto-discovered on 2024-12-31'',
          nb_last_seen = ''2024-12-31T00:00:01'', nb_discovery_method = ''network_scan'',
          nb_dns_name = Some ''gw.doofus.co''\<rparr>],
      dns_records = []\<rparr>"


section \<open>Properties of the classifier\<close>

lemma match_patterns_first:
  "i < length ps \<Longrightarrow> contains (fst (ps ! i)) h \<Longrightarrow>
   (\<forall>j<i. \<not> contains (fst (ps ! j)) h) \<Longrightarrow>
   match_patterns ps h = [snd (ps ! i)]"
proof (induction ps arbitrary: i)
  case Nil
  then show ?case by simp
next
  case (Cons pc rest)
  obtain pattern config where pc: "pc = (pattern, config)" by (cases pc)
  show ?case
  proof (cases i)
    case 0
    with Cons.prems pc show ?thesis by simp
  next
    case (Suc k)
    from Cons.prems(3) Suc have "\<not> contains (fst ((pc # rest) ! 0)) h" by blast
    then have nomatch: "\<not> contains pattern h" using pc by simp
    have "k < length rest" using Cons.prems(1) Suc by simp
    moreover have "contains (fst (rest ! k)) h" using Cons.prems(2) Suc by simp
    moreover have "\<forall>j<k. \<not> contains (fst (rest ! j)) h"
    proof (intro allI impI)
      fix j assume "j < k"
      then have "Suc j < i" using Suc by simp
      with Cons.prems(3) have "\<not> contains (fst ((pc # rest) ! Suc j)) h" by blast
      then show "\<not> contains (fst (rest ! j)) h" by simp
    qed
    ultimately have "match_patterns rest h = [snd (rest ! k)]" by (rule Cons.IH)
    with nomatch pc Suc show ?thesis by simp
  qed
qed

lemma match_patterns_length: "length (match_patterns ps h) \<le> 1"
  by (induction ps h rule: match_patterns.induct) auto

lemma detect_services_length: "length (detect_services h a cf) = 1"
proof -
  have "length (match_patterns service_patterns (lower h)) \<le> 1"
    by (rule match_patterns_length)
  then show ?thesis
    by (cases "match_patterns service_patterns (lower h)") (auto simp: detect_services_def Let_def)
qed

text \<open>
  C3. Rule precedence: when the lower-cased host name contains the tokens of several
  rules, \<open>detect_services\<close> returns exactly the entry of the rule that comes first in
  \<open>service_patterns\<close> (the rule at the least matching index), and nothing else.
\<close>

theorem detect_services_first_match_wins:
  assumes "i < length service_patterns"
    and "contains (fst (service_patterns ! i)) (lower h)"
    and "\<forall>j<i. \<not> contains (fst (service_patterns ! j)) (lower h)"
  shows "detect_services h a cf = [snd (service_patterns ! i)]"
proof -
  have "match_patterns service_patterns (lower h) = [snd (service_patterns ! i)]"
    using assms by (rule match_patterns_first)
  then show ?thesis by (simp add: detect_services_def)
qed

text \<open>
  Witness for C3: \<open>Grafana-API.example\<close> contains the tokens of the fifth rule
  (\<open>grafana\<close>) and of the seventh (\<open>api\<close>) and gets the fifth rule's entry;
  \<open>gitlab-api.example\<close> gets the entry of \<open>gitlab\<close>, the first rule.
\<close>

theorem detect_services_first_match_wins_witness:
  "contains ''grafana'' (lower ''Grafana-API.example'') \<and>
   contains ''api'' (lower ''Grafana-API.example'') \<and>
   detect_services ''Grafana-API.example'' ''10.203.1.7'' [] =
     [\<lparr>det_type = ''monitoring'', det_port = 3000, det_protocol = ''http''\<rparr>] \<and>
   contains ''gitlab'' (lower ''gitlab-api.example'') \<and>
   contains ''api'' (lower ''gitlab-api.example'') \<and>
   detect_services ''gitlab-api.example'' ''10.203.1.8'' [] =
     [\<lparr>det_type = ''web'', det_port = 80, det_protocol = ''http''\<rparr>]"
proof -
  have a: "contains ''grafana'' (lower ''Grafana-API.example'')"
    and b: "contains ''api'' (lower ''Grafana-API.example'')"
    and c: "contains ''gitlab'' (lower ''gitlab-api.example'')"
    and d: "contains ''api'' (lower ''gitlab-api.example'')"
    by (simp_all add: lower_def lower_char_def)
  have i4: "4 < length service_patterns" and i0: "0 < length service_patterns"
    by (simp_all add: service_patterns_def)
  have m4: "contains (fst (service_patterns ! 4)) (lower ''Grafana-API.example'')"
    using a by (simp add: service_patterns_def)
  have m0: "contains (fst (service_patterns ! 0)) (lower ''gitlab-api.example'')"
    using c by (simp add: service_patterns_def)
  have n4: "\<forall>j<4. \<not> contains (fst (service_patterns ! j)) (lower ''Grafana-API.example'')"
    by (simp add: service_patterns_def lower_def lower_char_def less_Suc_eq numeral_eq_Suc)
  have n0: "\<forall>j<0. \<not> contains (fst (service_patterns ! j)) (lower ''gitlab-api.example'')"
    by simp
  have "detect_services ''Grafana-API.example'' ''10.203.1.7'' [] = [snd (service_patterns ! 4)]"
    using detect_services_first_match_wins [OF i4 m4 n4] .
  moreover have "detect_services ''gitlab-api.example'' ''10.203.1.8'' [] = [snd (service_patterns ! 0)]"
    using detect_services_first_match_wins [OF i0 m0 n0] .
  ultimately show ?thesis using a b c d by (simp add: service_patterns_def)
qed

lemma services_of_results_length:
  "length (services_of_results results) =
     length (filter (\<lambda>d. dns_name d \<noteq> None \<and> dns_name d \<noteq> Some []) results)"
  by (induction results) (auto simp: Let_def detect_services_length split: option.splits)

text \<open>
  C10. For every host name, address and attribute bag \<open>detect_services\<close> returns a list
  of exactly one element, so \<open>get_services_from_netbox\<close> builds exactly one service per
  entry of the NetBox answer that has a DNS name (entries without one are skipped).
\<close>

theorem detect_services_exactly_one:
  "length (detect_services h a cf) = 1 \<and>
   length (services_of_results results) =
     length (filter (\<lambda>d. dns_name d \<noteq> None \<and> dns_name d \<noteq> Some []) results)"
  by (simp add: detect_services_length services_of_results_length)

theorem detect_services_exactly_one_witness:
  "length (detect_services ''randomhost.example'' ''10.203.1.9'' []) = 1 \<and>
   detect_services ''randomhost.example'' ''10.203.1.9'' [] =
     [\<lparr>det_type = ''web'', det_port = 80, det_protocol = ''http''\<rparr>] \<and>
   length (services_of_results example_results) = 1"
proof -
  have "length (filter (\<lambda>d. dns_name d \<noteq> None \<and> dns_name d \<noteq> Some []) example_results) = 1"
    by (simp add: example_results_def)
  moreover have "detect_services ''randomhost.example'' ''10.203.1.9'' [] =
     [\<lparr>det_type = ''web'', det_port = 80, det_protocol = ''http''\<rparr>]"
    by (simp add: detect_services_def service_patterns_def lower_def lower_char_def)
  ultimately show ?thesis
    using detect_services_exactly_one [of "''randomhost.example''" "''10.203.1.9''" "[]" example_results]
    by simp
qed


section \<open>Properties of the renderer\<close>

text \<open>
  C4, as the specification states it, fails: \<open>detect_services\<close> has no second pass for
  \<open>admin\<close>. \<open>gitlab-admin.example\<close> contains \<open>admin\<close>, but the first matching rule is
  \<open>gitlab\<close> and the classifier returns type \<open>web\<close>.
\<close>

theorem classifier_has_no_admin_override:
  "contains ''admin'' ''gitlab-admin.example'' \<and>
   detect_services ''gitlab-admin.example'' ''10.203.1.5'' [] =
     [\<lparr>det_type = ''web'', det_port = 80, det_protocol = ''http''\<rparr>] \<and>
   det_type (hd (detect_services ''gitlab-admin.example'' ''10.203.1.5'' [])) \<noteq> ''secure''"
  by (simp add: detect_services_def service_patterns_def lower_def lower_char_def)

text \<open>
  C4, amended. The override is made when a service is rendered: for every service whose
  host name contains \<open>admin\<close> (as written, case-sensitive), \<open>generate_service_config\<close>
  uses the \<open>secure\<close> template, whatever type the classifier gave the service.
\<close>

theorem admin_override_at_render:
  assumes "contains ''admin'' (hostname svc)"
  shows "generate_service_config base svc =
           template_secure (prepare_hostname base (hostname svc)) (ip svc) (str_int (port svc))
             (split_first (CHR ''.'') (hostname svc))"
  using assms by (simp add: generate_service_config_def service_templates_def Let_def)

theorem admin_override_at_render_witness:
  "contains ''admin'' ''gitlab-admin.example'' \<and>
   generate_service_config ''doofus.co''
     \<lparr>hostname = ''gitlab-admin.example'', ip = ''10.203.1.5'', service_type = ''web'',
      port = 80, protocol = ''http'', custom_config = []\<rparr> =
   template_secure ''gitlab-admin.example'' ''10.203.1.5'' ''80'' ''gitlab-admin''"
proof -
  have a: "contains ''admin'' ''gitlab-admin.example''" by simp
  show ?thesis
    using a admin_override_at_render [of "\<lparr>hostname = ''gitlab-admin.example'', ip = ''10.203.1.5'',
      service_type = ''web'', port = 80, protocol = ''http'', custom_config = []\<rparr>" "''doofus.co''"]
    by (simp add: prepare_hostname_def ends_with_def str_int_def digits.simps split_first_def)
qed

text \<open>\<open>join\<close> puts the separator between neighbours, and nowhere else.\<close>

lemma join_Cons:
  "join sep (x # xs) = (if xs = [] then x else x @ sep @ join sep xs)"
  by (cases xs) simp_all

lemma join_append:
  "xs \<noteq> [] \<Longrightarrow> ys \<noteq> [] \<Longrightarrow> join sep (xs @ ys) = join sep xs @ sep @ join sep ys"
proof (induction xs)
  case Nil
  then show ?case by simp
next
  case (Cons x xs)
  show ?case
  proof (cases "xs = []")
    case True
    with Cons.prems show ?thesis by (simp add: join_Cons)
  next
    case False
    with Cons show ?thesis by (simp add: join_Cons)
  qed
qed

lemma join_around:
  assumes "i < length xs"
  shows "join sep xs =
           join sep (take i xs) @ (if i = 0 then [] else sep) @ xs ! i @
           (if Suc i = length xs then [] else sep) @ join sep (drop (Suc i) xs)"
proof -
  have parts: "xs = take i xs @ xs ! i # drop (Suc i) xs"
    using assms by (rule id_take_nth_drop)
  have tail: "join sep (xs ! i # drop (Suc i) xs) =
          xs ! i @ (if Suc i = length xs then [] else sep) @ join sep (drop (Suc i) xs)"
    using assms by (auto simp: join_Cons)
  show ?thesis
  proof (cases "i = 0")
    case True
    have "join sep xs = join sep (xs ! i # drop (Suc i) xs)"
      using parts True by simp
    then show ?thesis using tail True by simp
  next
    case False
    then have "take i xs \<noteq> []" using assms by auto
    then have "join sep (take i xs @ xs ! i # drop (Suc i) xs) =
                 join sep (take i xs) @ sep @ join sep (xs ! i # drop (Suc i) xs)"
      by (intro join_append) simp_all
    then have "join sep xs = join sep (take i xs) @ sep @ join sep (xs ! i # drop (Suc i) xs)"
      using parts by simp
    then show ?thesis using tail False by simp
  qed
qed

text \<open>
  C6. For a fixed list of services and a fixed domain the rendered document is the
  header followed by the blocks of the services in the order of the input, with one
  line break between neighbours: the block of the service at position \<open>i\<close> stands after
  the document of the services before it and before the blocks of the services after
  it. The clock enters the header only, so two calls at different times agree on
  everything after their headers.
\<close>

theorem render_blocks_in_input_order:
  "generate_main_caddyfile base now1 [] = caddyfile_header base now1 \<and>
   generate_main_caddyfile base now1 [a] =
     caddyfile_header base now1 @ generate_service_config base a \<and>
   generate_main_caddyfile base now1 (a # b # rest) =
     caddyfile_header base now1 @ generate_service_config base a @ ''\<newline>'' @
     drop (length (caddyfile_header base now1)) (generate_main_caddyfile base now1 (b # rest)) \<and>
   (\<forall>i<length svcs.
      generate_main_caddyfile base now1 svcs =
        generate_main_caddyfile base now1 (take i svcs) @
        (if i = 0 then [] else ''\<newline>'') @
        generate_service_config base (svcs ! i) @
        (if Suc i = length svcs then [] else ''\<newline>'') @
        drop (length (caddyfile_header base now1))
          (generate_main_caddyfile base now1 (drop (Suc i) svcs))) \<and>
   drop (length (caddyfile_header base now1)) (generate_main_caddyfile base now1 svcs) =
   drop (length (caddyfile_header base now2)) (generate_main_caddyfile base now2 svcs)"
proof -
  have pos: "\<forall>i<length svcs.
      generate_main_caddyfile base now1 svcs =
        generate_main_caddyfile base now1 (take i svcs) @
        (if i = 0 then [] else ''\<newline>'') @
        generate_service_config base (svcs ! i) @
        (if Suc i = length svcs then [] else ''\<newline>'') @
        drop (length (caddyfile_header base now1))
          (generate_main_caddyfile base now1 (drop (Suc i) svcs))"
  proof (intro allI impI)
    fix i assume i: "i < length svcs"
    let ?blocks = "map (generate_service_config base) svcs"
    have "i < length ?blocks" using i by simp
    from join_around [OF this, of "''\<newline>''"] i
    show "generate_main_caddyfile base now1 svcs =
        generate_main_caddyfile base now1 (take i svcs) @
        (if i = 0 then [] else ''\<newline>'') @
        generate_service_config base (svcs ! i) @
        (if Suc i = length svcs then [] else ''\<newline>'') @
        drop (length (caddyfile_header base now1))
          (generate_main_caddyfile base now1 (drop (Suc i) svcs))"
      by (simp add: generate_main_caddyfile_def Let_def take_map drop_map)
  qed
  have rest: "generate_main_caddyfile base now1 [] = caddyfile_header base now1"
    "generate_main_caddyfile base now1 [a] =
       caddyfile_header base now1 @ generate_service_config base a"
    "generate_main_caddyfile base now1 (a # b # rest) =
       caddyfile_header base now1 @ generate_service_config base a @ ''\<newline>'' @
       drop (length (caddyfile_header base now1)) (generate_main_caddyfile base now1 (b # rest))"
    "drop (length (caddyfile_header base now1)) (generate_main_caddyfile base now1 svcs) =
     drop (length (caddyfile_header base now2)) (generate_main_caddyfile base now2 svcs)"
    by (simp_all add: generate_main_caddyfile_def Let_def)
  show ?thesis using pos rest by blast
qed

text \<open>
  Witness for C6: two services rendered at two different times. The document is the
  header, the block of \<open>git.doofus.co\<close>, a line break and the block of
  \<open>grafana.doofus.co\<close>; the headers differ, what follows them does not; with the two
  services swapped the document is another one.
\<close>

theorem render_blocks_in_input_order_witness:
  "generate_main_caddyfile ''doofus.co'' ''2025-01-01T00:00:00''
     [\<lparr>hostname = ''git.doofus.co'', ip = ''10.203.1.5'', service_type = ''web'', port = 80,
       protocol = ''http'', custom_config = []\<rparr>,
      \<lparr>hostname = ''grafana'', ip = ''10.203.1.7'', service_type = ''monitoring'', port = 3000,
       protocol = ''http'', custom_config = []\<rparr>] =
   caddyfile_header ''doofus.co'' ''2025-01-01T00:00:00'' @
   template_web ''git.doofus.co'' ''10.203.1.5'' ''80'' ''git'' @ ''\<newline>'' @
   template_web ''grafana.doofus.co'' ''10.203.1.7'' ''3000'' ''grafana'' \<and>
   drop (length (caddyfile_header ''doofus.co'' ''2025-01-01T00:00:00''))
     (generate_main_caddyfile ''doofus.co'' ''2025-01-01T00:00:00''
        [\<lparr>hostname = ''git.doofus.co'', ip = ''10.203.1.5'', service_type = ''web'', port = 80,
          protocol = ''http'', custom_config = []\<rparr>,
         \<lparr>hostname = ''grafana'', ip = ''10.203.1.7'', service_type = ''monitoring'', port = 3000,
          protocol = ''http'', custom_config = []\<rparr>]) =
   drop (length (caddyfile_header ''doofus.co'' ''2025-01-01T00:05:00.250000''))
     (generate_main_caddyfile ''doofus.co'' ''2025-01-01T00:05:00.250000''
        [\<lparr>hostname = ''git.doofus.co'', ip = ''10.203.1.5'', service_type = ''web'', port = 80,
          protocol = ''http'', custom_config = []\<rparr>,
         \<lparr>hostname = ''grafana'', ip = ''10.203.1.7'', service_type = ''monitoring'', port = 3000,
          protocol = ''http'', custom_config = []\<rparr>]) \<and>
   caddyfile_header ''doofus.co'' ''2025-01-01T00:00:00'' \<noteq>
   caddyfile_header ''doofus.co'' ''2025-01-01T00:05:00.250000'' \<and>
   generate_main_caddyfile ''doofus.co'' ''2025-01-01T00:00:00''
     [\<lparr>hostname = ''git.doofus.co'', ip = ''10.203.1.5'', service_type = ''web'', port = 80,
       protocol = ''http'', custom_config = []\<rparr>,
      \<lparr>hostname = ''grafana'', ip = ''10.203.1.7'', service_type = ''monitoring'', port = 3000,
       protocol = ''http'', custom_config = []\<rparr>] \<noteq>
   generate_main_caddyfile ''doofus.co'' ''2025-01-01T00:00:00''
     [\<lparr>hostname = ''grafana'', ip = ''10.203.1.7'', service_type = ''monitoring'', port = 3000,
       protocol = ''http'', custom_config = []\<rparr>,
      \<lparr>hostname = ''git.doofus.co'', ip = ''10.203.1.5'', service_type = ''web'', port = 80,
       protocol = ''http'', custom_config = []\<rparr>]"
proof -
  let ?git = "\<lparr>hostname = ''git.doofus.co'', ip = ''10.203.1.5'', service_type = ''web'',
               port = 80, protocol = ''http'', custom_config = []\<rparr>"
  let ?grafana = "\<lparr>hostname = ''grafana'', ip = ''10.203.1.7'', service_type = ''monitoring'',
                   port = 3000, protocol = ''http'', custom_config = []\<rparr>"
  let ?t1 = "''2025-01-01T00:00:00''" and ?t2 = "''2025-01-01T00:05:00.250000''"
  let ?h = "caddyfile_header ''doofus.co'' ?t1"
  have bg: "generate_service_config ''doofus.co'' ?git =
              template_web ''git.doofus.co'' ''10.203.1.5'' ''80'' ''git''"
    by (simp add: generate_service_config_def service_templates_def prepare_hostname_def
          ends_with_def str_int_def digits.simps split_first_def Let_def)
  have bf: "generate_service_config ''doofus.co'' ?grafana =
              template_web ''grafana.doofus.co'' ''10.203.1.7'' ''3000'' ''grafana''"
    by (simp add: generate_service_config_def service_templates_def prepare_hostname_def
          ends_with_def str_int_def digits.simps split_first_def Let_def)
  have forward: "generate_main_caddyfile ''doofus.co'' ?t1 [?git, ?grafana] =
          ?h @ template_web ''git.doofus.co'' ''10.203.1.5'' ''80'' ''git'' @ ''\<newline>'' @
          template_web ''grafana.doofus.co'' ''10.203.1.7'' ''3000'' ''grafana''"
    using render_blocks_in_input_order [of "''doofus.co''" ?t1 ?grafana ?git "[]"
            "[?git, ?grafana]" ?t2]
          render_blocks_in_input_order [of "''doofus.co''" ?t1 ?git ?grafana "[]"
            "[?git, ?grafana]" ?t2]
    by (simp add: bg bf)
  have backward: "generate_main_caddyfile ''doofus.co'' ?t1 [?grafana, ?git] =
          ?h @ template_web ''grafana.doofus.co'' ''10.203.1.7'' ''3000'' ''grafana'' @
          ''\<newline>'' @ template_web ''git.doofus.co'' ''10.203.1.5'' ''80'' ''git''"
    using render_blocks_in_input_order [of "''doofus.co''" ?t1 ?git ?grafana "[]"
            "[?git, ?grafana]" ?t2]
          render_blocks_in_input_order [of "''doofus.co''" ?t1 ?grafana ?git "[]"
            "[?git, ?grafana]" ?t2]
    by (simp add: bg bf)
  have differ: "generate_main_caddyfile ''doofus.co'' ?t1 [?git, ?grafana] \<noteq>
                generate_main_caddyfile ''doofus.co'' ?t1 [?grafana, ?git]"
    unfolding forward backward by (simp add: template_web_def)
  have clock: "drop (length ?h) (generate_main_caddyfile ''doofus.co'' ?t1 [?git, ?grafana]) =
               drop (length (caddyfile_header ''doofus.co'' ?t2))
                 (generate_main_caddyfile ''doofus.co'' ?t2 [?git, ?grafana])"
    using render_blocks_in_input_order [of "''doofus.co''" ?t1 ?git ?grafana "[]"
            "[?git, ?grafana]" ?t2]
    by blast
  have headers: "?h \<noteq> caddyfile_header ''doofus.co'' ?t2"
    by (simp add: caddyfile_header_def)
  show ?thesis using forward clock headers differ by blast
qed


section \<open>Properties of the reconciliation cycle\<close>

lemma logger_fields [simp]:
  "main_caddyfile (logger l m s) = main_caddyfile s"
  "backup_dir (logger l m s) = backup_dir s"
  "services_config_dir (logger l m s) = services_config_dir s"
  "temp_dir (logger l m s) = temp_dir s"
  "logged (logger l m s) = logged s @ [(l, m)]"
  by (simp_all add: logger_def)

lemma get_services_ok:
  "netbox_reply env = Response 200 results \<Longrightarrow>
   get_services_from_netbox env s =
     (services_of_results results,
      logger INFO (''Retrieved '' @ digits (length (services_of_results results)) @
                   '' services from NetBox'') s)"
  by (simp add: get_services_from_netbox_def Let_def)

lemma get_services_frame:
  "main_caddyfile (snd (get_services_from_netbox env s)) = main_caddyfile s"
  "backup_dir (snd (get_services_from_netbox env s)) = backup_dir s"
  "services_config_dir (snd (get_services_from_netbox env s)) = services_config_dir s"
  "temp_dir (snd (get_services_from_netbox env s)) = temp_dir s"
  by (simp_all add: get_services_from_netbox_def Let_def split: netbox_reply.splits)

lemma validate_frame:
  "main_caddyfile (snd (validate_caddy_config env c s)) = main_caddyfile s"
  "backup_dir (snd (validate_caddy_config env c s)) = backup_dir s"
  "services_config_dir (snd (validate_caddy_config env c s)) = services_config_dir s"
  by (simp_all add: validate_caddy_config_def Let_def split: run_result.splits)

lemma validate_result:
  "fst (validate_caddy_config env c s) = (\<exists>err. caddy_validate env c = Completed 0 err)"
  by (auto simp: validate_caddy_config_def Let_def split: run_result.splits)

lemma validate_temp_removed:
  "caddy_validate env c = Completed rc err \<Longrightarrow>
   temp_dir (snd (validate_caddy_config env c s)) (temp_name env) = None"
  by (simp add: validate_caddy_config_def Let_def)

lemma validate_temp_left:
  "caddy_validate env c = RunRaises e \<Longrightarrow>
   temp_dir (snd (validate_caddy_config env c s)) (temp_name env) = Some c"
  by (simp add: validate_caddy_config_def Let_def)


text \<open>
  C2. When NetBox delivers at least one service and the checker does not accept the
  candidate document (it exits with a non-zero code, or running it raises), the cycle
  returns \<open>False\<close>, its last log record is the error "Configuration validation failed,
  aborting update", and the Caddyfile, the backup directory and the services directory
  are exactly as before the cycle.
\<close>

theorem validation_failure_leaves_disk_untouched:
  assumes reply: "netbox_reply env = Response 200 results"
    and some: "services_of_results results \<noteq> []"
    and rejected: "\<forall>err. caddy_validate env
             (generate_main_caddyfile (domain env) (now_isoformat env)
                (services_of_results results)) \<noteq> Completed 0 err"
  shows "fst (update_caddy_configuration env s) = False \<and>
         main_caddyfile (snd (update_caddy_configuration env s)) = main_caddyfile s \<and>
         backup_dir (snd (update_caddy_configuration env s)) = backup_dir s \<and>
         services_config_dir (snd (update_caddy_configuration env s)) = services_config_dir s \<and>
         last (logged (snd (update_caddy_configuration env s))) =
           (ERROR, ''Configuration validation failed, aborting update'')"
proof -
  define s1 where "s1 = logger INFO ''Starting Caddy configuration update'' s"
  define services where "services = services_of_results results"
  define s2 where "s2 = snd (get_services_from_netbox env s1)"
  define cfg where "cfg = generate_main_caddyfile (domain env) (now_isoformat env) services"
  define s3 where "s3 = snd (validate_caddy_config env cfg s2)"
  have g: "get_services_from_netbox env s1 = (services, s2)"
    using get_services_ok [OF reply, of s1] by (simp add: s2_def services_def)
  have nv: "\<not> fst (validate_caddy_config env cfg s2)"
    using rejected by (simp add: validate_result cfg_def services_def)
  then have v: "validate_caddy_config env cfg s2 = (False, s3)"
    by (simp add: s3_def prod_eq_iff)
  have u: "update_caddy_configuration env s =
             (False, logger ERROR ''Configuration validation failed, aborting update'' s3)"
    using some
    by (simp add: update_caddy_configuration_def Let_def s1_def [symmetric] g v
          cfg_def [symmetric] services_def [symmetric])
  have "main_caddyfile s3 = main_caddyfile s" "backup_dir s3 = backup_dir s"
       "services_config_dir s3 = services_config_dir s"
    by (simp_all add: s3_def s2_def s1_def validate_frame get_services_frame)
  then show ?thesis by (simp add: u)
qed

text \<open>The services of the example run, and the witness for C2: the checker exits with code 1.\<close>

lemma example_services:
  "services_of_results example_results =
     [\<lparr>hostname = ''git.doofus.co'', ip = ''10.203.1.5'', service_type = ''web'', port = 80,
       protocol = ''http'', custom_config = []\<rparr>]"
  by (simp add: example_results_def split_first_def detect_services_def service_patterns_def
        lower_def lower_char_def)

theorem validation_failure_leaves_disk_untouched_witness:
  "fst (update_caddy_configuration
          (example_env\<lparr>caddy_validate := (\<lambda>content. Completed 1 ''adapting config: syntax error'')\<rparr>)
          example_state) = False \<and>
   main_caddyfile (snd (update_caddy_configuration
          (example_env\<lparr>caddy_validate := (\<lambda>content. Completed 1 ''adapting config: syntax error'')\<rparr>)
          example_state)) = Some ''# previous Caddyfile'' \<and>
   last (logged (snd (update_caddy_configuration
          (example_env\<lparr>caddy_validate := (\<lambda>content. Completed 1 ''adapting config: syntax error'')\<rparr>)
          example_state))) = (ERROR, ''Configuration validation failed, aborting update'')"
proof -
  let ?env = "example_env\<lparr>caddy_validate := (\<lambda>content. Completed 1 ''adapting config: syntax error'')\<rparr>"
  have r: "netbox_reply ?env = Response 200 example_results" by (simp add: example_env_def)
  have n: "services_of_results example_results \<noteq> []" by (simp add: example_services)
  have v: "\<forall>err. caddy_validate ?env
             (generate_main_caddyfile (domain ?env) (now_isoformat ?env)
                (services_of_results example_results)) \<noteq> Completed 0 err"
    by simp
  show ?thesis
    using validation_failure_leaves_disk_untouched [OF r n v, of example_state]
    by (simp add: example_state_def)
qed

lemma backup_frame:
  "main_caddyfile (snd (backup_current_config env s)) = main_caddyfile s"
  "services_config_dir (snd (backup_current_config env s)) = services_config_dir s"
  "temp_dir (snd (backup_current_config env s)) = temp_dir s"
  by (simp_all add: backup_current_config_def Let_def split: option.splits)

lemma backup_existing:
  "main_caddyfile s = Some old \<Longrightarrow>
   backup_current_config env s =
     (''/opt/caddy/backups/Caddyfile.backup.'' @ now_stamp env,
      logger INFO (''Backed up Caddyfile to '' @ ''/opt/caddy/backups/Caddyfile.backup.'' @ now_stamp env)
        (s\<lparr>backup_dir := (backup_dir s)(''/opt/caddy/backups/Caddyfile.backup.'' @ now_stamp env \<mapsto> old)\<rparr>))"
  by (simp add: backup_current_config_def Let_def)

lemma backup_missing:
  "main_caddyfile s = None \<Longrightarrow> backup_current_config env s = ([], s)"
  by (simp add: backup_current_config_def Let_def)

lemma reload_result:
  "fst (reload_caddy env s) = (\<exists>err. caddy_reload env (main_caddyfile s) = Completed 0 err)"
  by (auto simp: reload_caddy_def split: run_result.splits)

lemma reload_frame:
  "main_caddyfile (snd (reload_caddy env s)) = main_caddyfile s"
  "backup_dir (snd (reload_caddy env s)) = backup_dir s"
  "services_config_dir (snd (reload_caddy env s)) = services_config_dir s"
  "temp_dir (snd (reload_caddy env s)) = temp_dir s"
  by (simp_all add: reload_caddy_def split: run_result.splits)

lemma validate_accepts:
  "caddy_validate env c = Completed 0 err \<Longrightarrow>
   validate_caddy_config env c s = (True, snd (validate_caddy_config env c s))"
  by (simp add: validate_caddy_config_def Let_def)

text \<open>
  C1, amended. When a Caddyfile existed before the cycle, the candidate was accepted and
  written, and the reload then fails (it exits with a non-zero code, or running it
  raises), the cycle copies the backup it has just made back over the Caddyfile: after
  the cycle the Caddyfile has its content from before the cycle, the backup holds the
  same content, the cycle returns \<open>False\<close> and its last log record is the error "Caddy
  reload failed, restored backup configuration".
\<close>

theorem activation_failure_restores_backup:
  assumes reply: "netbox_reply env = Response 200 results"
    and some: "services_of_results results \<noteq> []"
    and valid: "caddy_validate env
             (generate_main_caddyfile (domain env) (now_isoformat env)
                (services_of_results results)) = Completed 0 err"
    and written: "write_text_error env = None"
    and reload_fails: "\<forall>e. caddy_reload env
             (Some (generate_main_caddyfile (domain env) (now_isoformat env)
                (services_of_results results))) \<noteq> Completed 0 e"
    and existed: "main_caddyfile s = Some old"
  shows "fst (update_caddy_configuration env s) = False \<and>
         main_caddyfile (snd (update_caddy_configuration env s)) = Some old \<and>
         backup_dir (snd (update_caddy_configuration env s))
           (''/opt/caddy/backups/Caddyfile.backup.'' @ now_stamp env) = Some old \<and>
         last (logged (snd (update_caddy_configuration env s))) =
           (ERROR, ''Caddy reload failed, restored backup configuration'')"
proof -
  define s1 where "s1 = logger INFO ''Starting Caddy configuration update'' s"
  define services where "services = services_of_results results"
  define s2 where "s2 = snd (get_services_from_netbox env s1)"
  define cfg where "cfg = generate_main_caddyfile (domain env) (now_isoformat env) services"
  define s3 where "s3 = snd (validate_caddy_config env cfg s2)"
  define bf where "bf = ''/opt/caddy/backups/Caddyfile.backup.'' @ now_stamp env"
  define s4 where "s4 = snd (backup_current_config env s3)"
  define s5 where "s5 = logger INFO (''Updated Caddyfile with '' @ digits (length services) @
                                      '' services'') (s4\<lparr>main_caddyfile := Some cfg\<rparr>)"
  define s6 where "s6 = snd (reload_caddy env s5)"
  have g: "get_services_from_netbox env s1 = (services, s2)"
    using get_services_ok [OF reply, of s1] by (simp add: s2_def services_def)
  have v: "validate_caddy_config env cfg s2 = (True, s3)"
    using validate_accepts [of env cfg err s2] valid by (simp add: s3_def cfg_def services_def)
  have m3: "main_caddyfile s3 = Some old"
    using existed by (simp add: s3_def s2_def s1_def validate_frame get_services_frame)
  have b: "backup_current_config env s3 = (bf, s4)"
    using backup_existing [OF m3, of env] by (simp add: s4_def bf_def)
  have b4: "backup_dir s4 bf = Some old"
    using backup_existing [OF m3, of env] by (simp add: s4_def bf_def)
  have m5: "main_caddyfile s5 = Some cfg" by (simp add: s5_def)
  have nr: "\<not> fst (reload_caddy env s5)"
    using reload_fails by (simp add: reload_result m5 cfg_def services_def)
  then have r: "reload_caddy env s5 = (False, s6)" by (simp add: s6_def prod_eq_iff)
  have b6: "backup_dir s6 bf = Some old" by (simp add: s6_def reload_frame s5_def b4)
  have bfne: "bf \<noteq> []" by (simp add: bf_def)
  have u: "update_caddy_configuration env s =
             (False, restore_backup bf ERROR
                       ''Caddy reload failed, restored backup configuration'' s6)"
    using some r [unfolded s5_def]
    by (simp add: update_caddy_configuration_def Let_def s1_def [symmetric] g v b written
          cfg_def [symmetric] services_def [symmetric])
  have "backup_dir s6 (''/opt/caddy/backups/Caddyfile.backup.'' @ now_stamp env) = Some old"
    using b6 by (simp only: bf_def)
  then show ?thesis using b6 bfne by (simp add: u restore_backup_def)
qed

text \<open>Witness for the amended C1: the example run with a reload that exits with code 1.\<close>

theorem activation_failure_restores_backup_witness:
  "fst (update_caddy_configuration
          (example_env\<lparr>caddy_reload := (\<lambda>content. Completed 1 ''reload failed'')\<rparr>)
          example_state) = False \<and>
   main_caddyfile (snd (update_caddy_configuration
          (example_env\<lparr>caddy_reload := (\<lambda>content. Completed 1 ''reload failed'')\<rparr>)
          example_state)) = Some ''# previous Caddyfile'' \<and>
   backup_dir (snd (update_caddy_configuration
          (example_env\<lparr>caddy_reload := (\<lambda>content. Completed 1 ''reload failed'')\<rparr>)
          example_state)) ''/opt/caddy/backups/Caddyfile.backup.20250101-000000'' = Some ''# previous Caddyfile'' \<and>
   last (logged (snd (update_caddy_configuration
          (example_env\<lparr>caddy_reload := (\<lambda>content. Completed 1 ''reload failed'')\<rparr>)
          example_state))) = (ERROR, ''Caddy reload failed, restored backup configuration'')"
proof -
  let ?env = "example_env\<lparr>caddy_reload := (\<lambda>content. Completed 1 ''reload failed'')\<rparr>"
  have r: "netbox_reply ?env = Response 200 example_results" by (simp add: example_env_def)
  have n: "services_of_results example_results \<noteq> []" by (simp add: example_services)
  have v: "caddy_validate ?env
             (generate_main_caddyfile (domain ?env) (now_isoformat ?env)
                (services_of_results example_results)) = Completed 0 []"
    by (simp add: example_env_def)
  have w: "write_text_error ?env = None" by (simp add: example_env_def)
  have f: "\<forall>e. caddy_reload ?env
             (Some (generate_main_caddyfile (domain ?env) (now_isoformat ?env)
                (services_of_results example_results))) \<noteq> Completed 0 e"
    by simp
  have m: "main_caddyfile example_state = Some ''# previous Caddyfile''"
    by (simp add: example_state_def)
  have st: "now_stamp ?env = ''20250101-000000''" by (simp add: example_env_def)
  show ?thesis
    using activation_failure_restores_backup [OF r n v w f m] st by simp
qed

lemma foldl_logger_frame:
  "main_caddyfile (foldl (\<lambda>st x. logger l (f x) st) s xs) = main_caddyfile s"
  "backup_dir (foldl (\<lambda>st x. logger l (f x) st) s xs) = backup_dir s"
  "services_config_dir (foldl (\<lambda>st x. logger l (f x) st) s xs) = services_config_dir s"
  "temp_dir (foldl (\<lambda>st x. logger l (f x) st) s xs) = temp_dir s"
  by (induction xs arbitrary: s) simp_all

lemma log_service_summary_frame:
  "main_caddyfile (log_service_summary xs s) = main_caddyfile s"
  "backup_dir (log_service_summary xs s) = backup_dir s"
  "services_config_dir (log_service_summary xs s) = services_config_dir s"
  "temp_dir (log_service_summary xs s) = temp_dir s"
  by (simp_all add: log_service_summary_def foldl_logger_frame)

text \<open>
  Without a Caddyfile before the cycle \<open>backup_current_config\<close> returns the empty string,
  the guard of the copy-back is false, and the candidate stays in place whether or not
  the reload succeeds.
\<close>

lemma update_without_caddyfile:
  assumes reply: "netbox_reply env = Response 200 results"
    and some: "services_of_results results \<noteq> []"
    and valid: "caddy_validate env
             (generate_main_caddyfile (domain env) (now_isoformat env)
                (services_of_results results)) = Completed 0 err"
    and written: "write_text_error env = None"
    and missing: "main_caddyfile s = None"
  shows "main_caddyfile (snd (update_caddy_configuration env s)) =
           Some (generate_main_caddyfile (domain env) (now_isoformat env)
                   (services_of_results results)) \<and>
         fst (update_caddy_configuration env s) =
           (\<exists>e. caddy_reload env
                  (Some (generate_main_caddyfile (domain env) (now_isoformat env)
                           (services_of_results results))) = Completed 0 e)"
proof -
  define s1 where "s1 = logger INFO ''Starting Caddy configuration update'' s"
  define services where "services = services_of_results results"
  define s2 where "s2 = snd (get_services_from_netbox env s1)"
  define cfg where "cfg = generate_main_caddyfile (domain env) (now_isoformat env) services"
  define s3 where "s3 = snd (validate_caddy_config env cfg s2)"
  define s5 where "s5 = logger INFO (''Updated Caddyfile with '' @ digits (length services) @
                                      '' services'') (s3\<lparr>main_caddyfile := Some cfg\<rparr>)"
  define s6 where "s6 = snd (reload_caddy env s5)"
  have g: "get_services_from_netbox env s1 = (services, s2)"
    using get_services_ok [OF reply, of s1] by (simp add: s2_def services_def)
  have v: "validate_caddy_config env cfg s2 = (True, s3)"
    using validate_accepts [of env cfg err s2] valid by (simp add: s3_def cfg_def services_def)
  have m3: "main_caddyfile s3 = None"
    using missing by (simp add: s3_def s2_def s1_def validate_frame get_services_frame)
  have b: "backup_current_config env s3 = ([], s3)"
    using backup_missing [OF m3] .
  have m5: "main_caddyfile s5 = Some cfg" by (simp add: s5_def)
  obtain b where r: "reload_caddy env s5 = (b, s6)"
    by (cases "reload_caddy env s5") (simp add: s6_def)
  have bdef: "b = fst (reload_caddy env s5)" by (simp add: r)
  have m6: "main_caddyfile s6 = Some cfg" by (simp add: s6_def reload_frame m5)
  have u: "update_caddy_configuration env s =
             (if b
              then (True, log_service_summary services
                            (logger INFO ''Caddy configuration updated successfully'' s6))
              else (False, s6))"
    using some r [unfolded s5_def]
    by (simp add: update_caddy_configuration_def Let_def s1_def [symmetric] g v b written
          cfg_def [symmetric] services_def [symmetric] restore_backup_def split: prod.splits)
  show ?thesis
    using m6 by (simp add: u log_service_summary_frame bdef reload_result m5 cfg_def services_def)
qed

text \<open>
  C1, as the specification states it, fails when no Caddyfile exists before the cycle:
  the reload fails after the write, the cycle returns \<open>False\<close>, and the Caddyfile now
  holds the candidate, which is not the state before the cycle.
\<close>

theorem no_rollback_without_previous_caddyfile:
  "main_caddyfile (example_state\<lparr>main_caddyfile := None\<rparr>) = None \<and>
   fst (update_caddy_configuration
          (example_env\<lparr>caddy_reload := (\<lambda>content. Completed 1 ''reload failed'')\<rparr>)
          (example_state\<lparr>main_caddyfile := None\<rparr>)) = False \<and>
   main_caddyfile (snd (update_caddy_configuration
          (example_env\<lparr>caddy_reload := (\<lambda>content. Completed 1 ''reload failed'')\<rparr>)
          (example_state\<lparr>main_caddyfile := None\<rparr>))) =
     Some (generate_main_caddyfile ''doofus.co'' ''2025-01-01T00:00:00''
             (services_of_results example_results)) \<and>
   main_caddyfile (snd (update_caddy_configuration
          (example_env\<lparr>caddy_reload := (\<lambda>content. Completed 1 ''reload failed'')\<rparr>)
          (example_state\<lparr>main_caddyfile := None\<rparr>))) \<noteq>
     main_caddyfile (example_state\<lparr>main_caddyfile := None\<rparr>)"
proof -
  let ?env = "example_env\<lparr>caddy_reload := (\<lambda>content. Completed 1 ''reload failed'')\<rparr>"
  have r: "netbox_reply ?env = Response 200 example_results" by (simp add: example_env_def)
  have n: "services_of_results example_results \<noteq> []" by (simp add: example_services)
  have v: "caddy_validate ?env
             (generate_main_caddyfile (domain ?env) (now_isoformat ?env)
                (services_of_results example_results)) = Completed 0 []"
    by (simp add: example_env_def)
  have w: "write_text_error ?env = None" by (simp add: example_env_def)
  have m: "main_caddyfile (example_state\<lparr>main_caddyfile := None\<rparr>) = None" by simp
  have d: "domain ?env = ''doofus.co''" "now_isoformat ?env = ''2025-01-01T00:00:00''"
    by (simp_all add: example_env_def)
  show ?thesis
    using update_without_caddyfile [OF r n v w m] d by simp
qed

text \<open>The cycle that goes through: accepted, written, reloaded.\<close>

lemma update_applied:
  assumes reply: "netbox_reply env = Response 200 results"
    and some: "services_of_results results \<noteq> []"
    and valid: "caddy_validate env
             (generate_main_caddyfile (domain env) (now_isoformat env)
                (services_of_results results)) = Completed 0 err"
    and written: "write_text_error env = None"
    and reloaded: "caddy_reload env
             (Some (generate_main_caddyfile (domain env) (now_isoformat env)
                (services_of_results results))) = Completed 0 e"
  shows "fst (update_caddy_configuration env s) = True \<and>
         main_caddyfile (snd (update_caddy_configuration env s)) =
           Some (generate_main_caddyfile (domain env) (now_isoformat env)
                   (services_of_results results)) \<and>
         services_config_dir (snd (update_caddy_configuration env s)) = services_config_dir s"
proof -
  define s1 where "s1 = logger INFO ''Starting Caddy configuration update'' s"
  define services where "services = services_of_results results"
  define s2 where "s2 = snd (get_services_from_netbox env s1)"
  define cfg where "cfg = generate_main_caddyfile (domain env) (now_isoformat env) services"
  define s3 where "s3 = snd (validate_caddy_config env cfg s2)"
  define s4 where "s4 = snd (backup_current_config env s3)"
  define s5 where "s5 = logger INFO (''Updated Caddyfile with '' @ digits (length services) @
                                      '' services'') (s4\<lparr>main_caddyfile := Some cfg\<rparr>)"
  define s6 where "s6 = snd (reload_caddy env s5)"
  have g: "get_services_from_netbox env s1 = (services, s2)"
    using get_services_ok [OF reply, of s1] by (simp add: s2_def services_def)
  have v: "validate_caddy_config env cfg s2 = (True, s3)"
    using validate_accepts [of env cfg err s2] valid by (simp add: s3_def cfg_def services_def)
  obtain bf where b: "backup_current_config env s3 = (bf, s4)"
    by (cases "backup_current_config env s3") (simp add: s4_def)
  have m5: "main_caddyfile s5 = Some cfg" by (simp add: s5_def)
  have "fst (reload_caddy env s5)"
    using reloaded by (simp add: reload_result m5 cfg_def services_def)
  then have r: "reload_caddy env s5 = (True, s6)" by (simp add: s6_def prod_eq_iff)
  have m6: "main_caddyfile s6 = Some cfg" by (simp add: s6_def reload_frame m5)
  have d6: "services_config_dir s6 = services_config_dir s"
    by (simp add: s6_def reload_frame s5_def s4_def backup_frame s3_def validate_frame
          s2_def get_services_frame s1_def)
  have u: "update_caddy_configuration env s =
             (True, log_service_summary services
                      (logger INFO ''Caddy configuration updated successfully'' s6))"
    using some r [unfolded s5_def]
    by (simp add: update_caddy_configuration_def Let_def s1_def [symmetric] g v b written
          cfg_def [symmetric] services_def [symmetric])
  show ?thesis
    using m6 d6 by (simp add: u log_service_summary_frame cfg_def services_def)
qed

lemma main_update_exit:
  "fst (main_update env s) = exit_status (fst (update_caddy_configuration env s))"
  by (simp add: main_update_def case_prod_beta)

text \<open>
  C5, as the specification states it, fails: a cycle that finds no services returns
  \<open>False\<close> and \<open>main\<close> exits with status 1, exactly as after a rejected candidate and
  after a failed request to NetBox.
\<close>

theorem no_services_is_reported_as_failure:
  "fst (get_services_from_netbox (example_env\<lparr>netbox_reply := Response 200 []\<rparr>) example_state) = [] \<and>
   fst (update_caddy_configuration (example_env\<lparr>netbox_reply := Response 200 []\<rparr>)
          example_state) = False \<and>
   fst (main_update (example_env\<lparr>netbox_reply := Response 200 []\<rparr>) example_state) = 1 \<and>
   fst (main_update
          (example_env\<lparr>caddy_validate := (\<lambda>content. Completed 1 ''syntax error'')\<rparr>)
          example_state) = 1 \<and>
   fst (main_update (example_env\<lparr>netbox_reply := RequestRaises ''Connection refused''\<rparr>)
          example_state) = 1"
proof -
  have a: "fst (update_caddy_configuration (example_env\<lparr>netbox_reply := Response 200 []\<rparr>)
          example_state) = False"
    by (simp add: update_caddy_configuration_def get_services_from_netbox_def Let_def)
  have b: "fst (update_caddy_configuration
          (example_env\<lparr>netbox_reply := RequestRaises ''Connection refused''\<rparr>) example_state) = False"
    by (simp add: update_caddy_configuration_def get_services_from_netbox_def Let_def)
  have c: "fst (update_caddy_configuration
          (example_env\<lparr>caddy_validate := (\<lambda>content. Completed 1 ''syntax error'')\<rparr>)
          example_state) = False"
    by (simp add: update_caddy_configuration_def get_services_from_netbox_def Let_def
          example_env_def example_services validate_caddy_config_def)
  show ?thesis
    using a b c
    by (simp add: main_update_exit exit_status_def get_services_from_netbox_def Let_def)
qed

text \<open>
  C5, amended. When NetBox answers with no service, the cycle ends at once: it logs the
  warning "No services found in NetBox", changes nothing but the log, and returns
  \<open>False\<close>, which \<open>main\<close> turns into exit status 1. The return value is the one of
  every other failed cycle; only the log records tell the outcomes apart.
\<close>

theorem no_services_returns_false:
  assumes "netbox_reply env = Response 200 results"
    and "services_of_results results = []"
  shows "update_caddy_configuration env s =
           (False, s\<lparr>logged := logged s @
                       [(INFO, ''Starting Caddy configuration update''),
                        (INFO, ''Retrieved 0 services from NetBox''),
                        (WARNING, ''No services found in NetBox'')]\<rparr>) \<and>
         fst (main_update env s) = 1"
  using assms
  by (simp add: update_caddy_configuration_def main_update_def exit_status_def
        get_services_from_netbox_def logger_def Let_def digits.simps)

theorem no_services_returns_false_witness:
  "update_caddy_configuration (example_env\<lparr>netbox_reply := Response 200 []\<rparr>) example_state =
     (False, example_state\<lparr>logged :=
                [(INFO, ''Starting Caddy configuration update''),
                 (INFO, ''Retrieved 0 services from NetBox''),
                 (WARNING, ''No services found in NetBox'')]\<rparr>) \<and>
   fst (main_update (example_env\<lparr>netbox_reply := Response 200 []\<rparr>) example_state) = 1"
proof -
  have a: "netbox_reply (example_env\<lparr>netbox_reply := Response 200 []\<rparr>) = Response 200 []"
    by simp
  have b: "services_of_results [] = []" by simp
  have c: "logged example_state = []" by (simp add: example_state_def)
  show ?thesis
    using no_services_returns_false [OF a b, of example_state] c by simp
qed


section \<open>Where the code departs from its description\<close>

lemma example_caddyfile_has_no_wiki:
  "\<not> contains ''wiki''
       (generate_main_caddyfile ''doofus.co'' ''2025-01-01T00:00:00''
          (services_of_results example_results))"
  by (simp add: example_services generate_main_caddyfile_def caddyfile_header_def
        generate_service_config_def service_templates_def template_web_def prepare_hostname_def
        ends_with_def str_int_def digits.simps split_first_def Let_def)

text \<open>
  Whatever service is added by hand, a call in which every step goes through leaves the
  Caddyfile with the rendering of the services NetBox delivers.
\<close>

lemma add_service_manually_caddyfile:
  assumes "netbox_reply env = Response 200 results"
    and "services_of_results results \<noteq> []"
    and "caddy_validate env
           (generate_main_caddyfile (domain env) (now_isoformat env)
              (services_of_results results)) = Completed 0 err"
    and "write_text_error env = None"
    and "caddy_reload env
           (Some (generate_main_caddyfile (domain env) (now_isoformat env)
              (services_of_results results))) = Completed 0 e"
    and "service_write_error env = None"
  shows "\<exists>s'. add_service_manually env h a p t s = Inr (True, s') \<and>
           main_caddyfile s' =
             Some (generate_main_caddyfile (domain env) (now_isoformat env)
                     (services_of_results results))"
  using update_applied [OF assms(1-5)] assms(6)
  by (simp add: add_service_manually_def Let_def prod_eq_iff)

text \<open>
  C7. \<open>add_service_manually\<close> ("Manually add a service to Caddy configuration") writes
  the block of the new service to a file of its own in the services directory and then
  runs the ordinary cycle, which renders the services NetBox delivers and nothing else;
  the generated Caddyfile does not import the services directory. In the example run
  the call for \<open>wiki\<close> returns \<open>True\<close>, and the Caddyfile afterwards is the rendering of
  the one NetBox service \<open>git.doofus.co\<close>, without any mention of \<open>wiki\<close>.
\<close>

theorem add_service_manually_not_in_caddyfile:
  "\<exists>s'. add_service_manually example_env ''wiki'' ''10.203.1.9'' 8080 ''web'' example_state =
           Inr (True, s') \<and>
     services_config_dir s' ''wiki.caddyfile'' =
       Some (generate_service_config ''doofus.co''
               \<lparr>hostname = ''wiki'', ip = ''10.203.1.9'', service_type = ''web'', port = 8080,
                protocol = ''http'', custom_config = []\<rparr>) \<and>
     main_caddyfile s' =
       Some (generate_main_caddyfile ''doofus.co'' ''2025-01-01T00:00:00''
               (services_of_results example_results)) \<and>
     map hostname (services_of_results example_results) = [''git.doofus.co''] \<and>
     \<not> contains ''wiki''
         (generate_main_caddyfile ''doofus.co'' ''2025-01-01T00:00:00''
            (services_of_results example_results))"
proof -
  have r: "netbox_reply example_env = Response 200 example_results" by (simp add: example_env_def)
  have n: "services_of_results example_results \<noteq> []" by (simp add: example_services)
  have v: "caddy_validate example_env
             (generate_main_caddyfile (domain example_env) (now_isoformat example_env)
                (services_of_results example_results)) = Completed 0 []"
    by (simp add: example_env_def)
  have w: "write_text_error example_env = None" by (simp add: example_env_def)
  have l: "caddy_reload example_env
             (Some (generate_main_caddyfile (domain example_env) (now_isoformat example_env)
                (services_of_results example_results))) = Completed 0 []"
    by (simp add: example_env_def)
  have d: "domain example_env = ''doofus.co''" "now_isoformat example_env = ''2025-01-01T00:00:00''"
    "service_write_error example_env = None"
    by (simp_all add: example_env_def)
  have f: "replace_char (CHR ''.'') (CHR ''_'') ''wiki'' @ ''.caddyfile'' = ''wiki.caddyfile''"
    by (simp add: replace_char_def)
  show ?thesis
    using d example_caddyfile_has_no_wiki
    by (simp add: add_service_manually_def Let_def update_applied [OF r n v w l] f
          example_services prod_eq_iff)
qed

text \<open>
  C9. When running the checker raises (the timeout expires), \<open>validate_caddy_config\<close>
  returns \<open>False\<close> through its \<open>except\<close> clause and the temporary file it has written is
  still there; the Caddyfile is not touched.
\<close>

theorem validate_leaves_temp_file_on_timeout:
  "temp_dir example_state ''tmpk3x9.caddyfile'' = None \<and>
   fst (validate_caddy_config
          (example_env\<lparr>caddy_validate := (\<lambda>content. RunRaises ''timed out after 30 seconds'')\<rparr>)
          ''candidate document'' example_state) = False \<and>
   temp_dir (snd (validate_caddy_config
          (example_env\<lparr>caddy_validate := (\<lambda>content. RunRaises ''timed out after 30 seconds'')\<rparr>)
          ''candidate document'' example_state)) ''tmpk3x9.caddyfile'' = Some ''candidate document'' \<and>
   main_caddyfile (snd (validate_caddy_config
          (example_env\<lparr>caddy_validate := (\<lambda>content. RunRaises ''timed out after 30 seconds'')\<rparr>)
          ''candidate document'' example_state)) = main_caddyfile example_state"
  by (simp add: validate_caddy_config_def Let_def example_env_def example_state_def)


section \<open>Properties of the discovery cycle\<close>

lemma update_result_any_state:
  "fst (update_netbox_ip env h st) = fst (update_netbox_ip env h st')"
  by (simp add: update_netbox_ip_def Let_def split: http_reply.splits)

lemma build_netbox_data_fields:
  "nb_address (build_netbox_data h) = host_ip h"
  "nb_last_seen (build_netbox_data h) = last_seen h"
  "nb_status (build_netbox_data h) = ''active''"
  by (simp_all add: build_netbox_data_def Let_def split: option.splits)

lemma build_netbox_data_ignores_services:
  "build_netbox_data (h\<lparr>host_services := x\<rparr>) = build_netbox_data h"
  by (simp add: build_netbox_data_def)

lemma update_ignores_services:
  "update_netbox_ip env (h\<lparr>host_services := x\<rparr>) st = update_netbox_ip env h st"
  by (simp add: update_netbox_ip_def Let_def build_netbox_data_ignores_services
        split: http_reply.splits)

lemma sync_ignores_services_state:
  "ip_addresses (snd (sync_to_dns env h st)) = ip_addresses st"
  by (simp add: sync_to_dns_def Let_def split: option.splits http_reply.splits)

lemma update_failed_state:
  "\<not> fst (update_netbox_ip env h st) \<Longrightarrow> snd (update_netbox_ip env h st) = st"
  by (simp add: update_netbox_ip_def Let_def split: http_reply.splits if_splits)

lemma patch_first_other:
  "a \<noteq> ip_address \<Longrightarrow> nb_address payload = ip_address \<Longrightarrow>
   filter (\<lambda>d. nb_address d = a) (patch_first ip_address payload ds) =
   filter (\<lambda>d. nb_address d = a) ds"
  by (induction ds) (auto simp: patch_fields_def)

lemma patch_first_record:
  "filter (\<lambda>d. nb_address d = ip_address) ds \<noteq> [] \<Longrightarrow>
   \<exists>d\<in>set (patch_first ip_address payload ds).
      nb_address d = nb_address payload \<and> nb_last_seen d = nb_last_seen payload \<and>
      nb_status d = nb_status payload"
  by (induction ds) (auto simp: patch_fields_def)

lemma update_other_address:
  "a \<noteq> host_ip h \<Longrightarrow>
   filter (\<lambda>d. nb_address d = a) (ip_addresses (snd (update_netbox_ip env h st))) =
   filter (\<lambda>d. nb_address d = a) (ip_addresses st)"
  by (simp add: update_netbox_ip_def Let_def patch_first_other build_netbox_data_fields
        split: http_reply.splits)

lemma update_accepted_record:
  assumes "fst (update_netbox_ip env h st)"
  shows "\<exists>d\<in>set (ip_addresses (snd (update_netbox_ip env h st))).
           nb_address d = host_ip h \<and> nb_last_seen d = last_seen h \<and> nb_status d = ''active''"
proof -
  define payload where "payload = build_netbox_data h"
  have p: "nb_address payload = host_ip h" "nb_last_seen payload = last_seen h"
          "nb_status payload = ''active''"
    by (simp_all add: payload_def build_netbox_data_fields)
  have appended: "\<exists>d\<in>set (ip_addresses st @ [payload]).
      nb_address d = host_ip h \<and> nb_last_seen d = last_seen h \<and> nb_status d = ''active''"
    using p by simp
  have cases: "(filter (\<lambda>d. nb_address d = host_ip h) (ip_addresses st) \<noteq> [] \<and>
          ip_addresses (snd (update_netbox_ip env h st)) =
          patch_first (host_ip h) payload (ip_addresses st)) \<or>
        ip_addresses (snd (update_netbox_ip env h st)) = ip_addresses st @ [payload]"
    using assms
    by (auto simp: update_netbox_ip_def Let_def payload_def [symmetric]
          split: http_reply.splits if_splits)
  show ?thesis
  proof (cases "ip_addresses (snd (update_netbox_ip env h st)) = ip_addresses st @ [payload]")
    case True
    with appended show ?thesis by simp
  next
    case False
    with cases have ne: "filter (\<lambda>d. nb_address d = host_ip h) (ip_addresses st) \<noteq> []"
      and eq: "ip_addresses (snd (update_netbox_ip env h st)) =
                 patch_first (host_ip h) payload (ip_addresses st)"
      by blast+
    show ?thesis
      using patch_first_record [OF ne, of payload] p by (simp add: eq)
  qed
qed

lemma process_host_inventory:
  "ip_addresses (snd (process_host env h (r, st))) =
   ip_addresses (snd (update_netbox_ip env h st))"
  by (simp add: process_host_def Let_def case_prod_beta sync_ignores_services_state
        update_ignores_services)

lemma process_host_counts:
  "total_hosts (fst (process_host env h (r, st))) = total_hosts r + 1"
  "active_hosts (fst (process_host env h (r, st))) = active_hosts r + 1"
  "updated_hosts (fst (process_host env h (r, st))) =
     updated_hosts r + (if fst (update_netbox_ip env h st) then 1 else 0)"
  by (simp_all add: process_host_def Let_def case_prod_beta update_ignores_services)

lemma process_hosts_append:
  "process_hosts env (xs @ ys) acc = process_hosts env ys (process_hosts env xs acc)"
  by (induction xs arbitrary: acc) simp_all

lemma process_networks_concat:
  "process_networks env networks acc =
   process_hosts env (concat (map (\<lambda>network. network_scan env (strip network)) networks)) acc"
  by (induction networks arbitrary: acc) (simp_all add: process_hosts_append)

lemma process_hosts_counts:
  "total_hosts (fst (process_hosts env hs (r, st))) = total_hosts r + length hs \<and>
   active_hosts (fst (process_hosts env hs (r, st))) = active_hosts r + length hs \<and>
   updated_hosts (fst (process_hosts env hs (r, st))) =
     updated_hosts r + length (filter (\<lambda>h. fst (update_netbox_ip env h st0)) hs)"
proof (induction hs arbitrary: r st)
  case Nil
  show ?case by simp
next
  case (Cons h hs)
  obtain r' st' where step: "process_host env h (r, st) = (r', st')"
    by (cases "process_host env h (r, st)")
  have c: "total_hosts r' = total_hosts r + 1" "active_hosts r' = active_hosts r + 1"
    "updated_hosts r' = updated_hosts r + (if fst (update_netbox_ip env h st0) then 1 else 0)"
    using process_host_counts [of env h r st] update_result_any_state [of env h st st0]
    by (simp_all add: step)
  show ?case
    using Cons.IH [of r' st'] c by (simp add: step)
qed

lemma process_hosts_other_address:
  "a \<notin> host_ip ` set hs \<Longrightarrow>
   filter (\<lambda>d. nb_address d = a) (ip_addresses (snd (process_hosts env hs (r, st)))) =
   filter (\<lambda>d. nb_address d = a) (ip_addresses st)"
proof (induction hs arbitrary: r st)
  case Nil
  show ?case by simp
next
  case (Cons h hs)
  obtain r' st' where step: "process_host env h (r, st) = (r', st')"
    by (cases "process_host env h (r, st)")
  have "ip_addresses st' = ip_addresses (snd (update_netbox_ip env h st))"
    using process_host_inventory [of env h r st] by (simp add: step)
  moreover have "a \<noteq> host_ip h" using Cons.prems by auto
  ultimately have "filter (\<lambda>d. nb_address d = a) (ip_addresses st') =
                   filter (\<lambda>d. nb_address d = a) (ip_addresses st)"
    by (simp add: update_other_address)
  moreover have "a \<notin> host_ip ` set hs" using Cons.prems by auto
  ultimately show ?case using Cons.IH [of r' st'] by (simp add: step)
qed

lemma process_hosts_accepted_record:
  "h \<in> set hs \<Longrightarrow> distinct (map host_ip hs) \<Longrightarrow> fst (update_netbox_ip env h st0) \<Longrightarrow>
   \<exists>d\<in>set (ip_addresses (snd (process_hosts env hs (r, st)))).
      nb_address d = host_ip h \<and> nb_last_seen d = last_seen h \<and> nb_status d = ''active''"
proof (induction hs arbitrary: r st)
  case Nil
  then show ?case by simp
next
  case (Cons x hs)
  obtain r' st' where step: "process_host env x (r, st) = (r', st')"
    by (cases "process_host env x (r, st)")
  show ?case
  proof (cases "h = x")
    case True
    have inv: "ip_addresses st' = ip_addresses (snd (update_netbox_ip env h st))"
      using process_host_inventory [of env x r st] True by (simp add: step)
    have "fst (update_netbox_ip env h st)"
      using Cons.prems(3) update_result_any_state [of env h st st0] by simp
    then obtain d where d: "d \<in> set (ip_addresses st')" "nb_address d = host_ip h"
        "nb_last_seen d = last_seen h" "nb_status d = ''active''"
      using update_accepted_record [of env h st] inv by auto
    have "host_ip h \<notin> host_ip ` set hs" using Cons.prems(2) True by auto
    then have same: "filter (\<lambda>e. nb_address e = host_ip h)
                       (ip_addresses (snd (process_hosts env hs (r', st')))) =
                     filter (\<lambda>e. nb_address e = host_ip h) (ip_addresses st')"
      by (rule process_hosts_other_address)
    have "d \<in> set (filter (\<lambda>e. nb_address e = host_ip h) (ip_addresses st'))"
      using d by simp
    then have "d \<in> set (filter (\<lambda>e. nb_address e = host_ip h)
                         (ip_addresses (snd (process_hosts env hs (r', st')))))"
      using same by simp
    then have "d \<in> set (ip_addresses (snd (process_hosts env hs (r', st'))))"
      by simp
    then show ?thesis using d by (auto simp: step)
  next
    case False
    then have "h \<in> set hs" using Cons.prems(1) by simp
    moreover have "distinct (map host_ip hs)" using Cons.prems(2) by simp
    ultimately show ?thesis using Cons.IH [of r' st'] Cons.prems(3) by (simp add: step)
  qed
qed

lemma filter_all_but_one:
  assumes "k < length xs" and "\<not> P (xs ! k)"
    and "\<forall>j<length xs. j \<noteq> k \<longrightarrow> P (xs ! j)"
  shows "length (filter P xs) = length xs - 1"
proof -
  have split: "xs = take k xs @ xs ! k # drop (Suc k) xs"
    using assms(1) by (rule id_take_nth_drop)
  have "\<forall>x\<in>set (take k xs). P x"
  proof
    fix x assume "x \<in> set (take k xs)"
    then obtain j where "j < length (take k xs)" "take k xs ! j = x"
      by (auto simp: in_set_conv_nth)
    then have "j < k" "j < length xs" "xs ! j = x" using assms(1) by auto
    with assms(3) show "P x" by auto
  qed
  then have a: "filter P (take k xs) = take k xs" by simp
  have "\<forall>x\<in>set (drop (Suc k) xs). P x"
  proof
    fix x assume "x \<in> set (drop (Suc k) xs)"
    then obtain j where j: "j < length (drop (Suc k) xs)" "drop (Suc k) xs ! j = x"
      by (auto simp: in_set_conv_nth)
    then have "Suc k + j < length xs" "xs ! (Suc k + j) = x" by auto
    with assms(3) show "P x" by auto
  qed
  then have b: "filter P (drop (Suc k) xs) = drop (Suc k) xs" by simp
  have "length (filter P xs) =
          length (filter P (take k xs @ xs ! k # drop (Suc k) xs))"
    using split by simp
  also have "\<dots> = length (take k xs) + length (drop (Suc k) xs)"
    using a b assms(2) by simp
  also have "\<dots> = length xs - 1" using assms(1) by simp
  finally show ?thesis .
qed

text \<open>
  C8. In a discovery run over hosts with different addresses in which the NetBox update
  fails for exactly one host (the one at position \<open>k\<close>), the run is not aborted: it
  returns the completed report, every host is counted in \<open>total_hosts\<close> and
  \<open>active_hosts\<close>, \<open>updated_hosts\<close> is one less than \<open>total_hosts\<close> (the one failure),
  every other host has its record in NetBox afterwards, with its address and its time
  stamp, and the records for the address of the failed host are as they were.
\<close>

theorem discovery_tolerates_one_failed_upsert:
  assumes connected: "test_netbox_connection env"
    and site_ok: "site env = Some site_id"
    and hosts: "hosts = concat (map (\<lambda>network. network_scan env (strip network))
                                  (discovery_networks env))"
    and different: "distinct (map host_ip hosts)"
    and k: "k < length hosts"
    and k_fails: "\<forall>s. \<not> fst (update_netbox_ip env (hosts ! k) s)"
    and others_ok: "\<forall>j<length hosts. j \<noteq> k \<longrightarrow> (\<forall>s. fst (update_netbox_ip env (hosts ! j) s))"
  shows "\<exists>rep st'. run_discovery env st = (DiscoveryCompleted rep, st') \<and>
           total_hosts rep = length hosts \<and>
           active_hosts rep = length hosts \<and>
           updated_hosts rep = length hosts - 1 \<and>
           total_hosts rep - updated_hosts rep = 1 \<and>
           (\<forall>j<length hosts. j \<noteq> k \<longrightarrow>
              (\<exists>d\<in>set (ip_addresses st').
                 nb_address d = host_ip (hosts ! j) \<and> nb_last_seen d = last_seen (hosts ! j) \<and>
                 nb_status d = ''active'')) \<and>
           filter (\<lambda>d. nb_address d = host_ip (hosts ! k)) (ip_addresses st') =
           filter (\<lambda>d. nb_address d = host_ip (hosts ! k)) (ip_addresses st)"
proof -
  define r0 where "r0 = generate_network_report env"
  define res where "res = process_hosts env hosts (r0, st)"
  have run: "run_discovery env st = (DiscoveryCompleted (fst res), snd res)"
    using connected site_ok
    by (simp add: run_discovery_def process_networks_concat hosts [symmetric] r0_def res_def
          case_prod_beta)
  have zero: "total_hosts r0 = 0" "active_hosts r0 = 0" "updated_hosts r0 = 0"
    by (simp_all add: r0_def generate_network_report_def)
  have counts: "total_hosts (fst res) = length hosts" "active_hosts (fst res) = length hosts"
    "updated_hosts (fst res) = length (filter (\<lambda>h. fst (update_netbox_ip env h st)) hosts)"
    using process_hosts_counts [of env hosts r0 st st] zero by (simp_all add: res_def)
  have "length (filter (\<lambda>h. fst (update_netbox_ip env h st)) hosts) = length hosts - 1"
    using k k_fails others_ok by (intro filter_all_but_one) auto
  then have upd: "updated_hosts (fst res) = length hosts - 1" using counts by simp
  have one: "total_hosts (fst res) - updated_hosts (fst res) = 1"
    using counts(1) upd k by simp
  have recs: "\<forall>j<length hosts. j \<noteq> k \<longrightarrow>
              (\<exists>d\<in>set (ip_addresses (snd res)).
                 nb_address d = host_ip (hosts ! j) \<and> nb_last_seen d = last_seen (hosts ! j) \<and>
                 nb_status d = ''active'')"
  proof (intro allI impI)
    fix j assume j: "j < length hosts" "j \<noteq> k"
    then have mem: "hosts ! j \<in> set hosts" by simp
    have acc: "fst (update_netbox_ip env (hosts ! j) st)" using others_ok j by simp
    show "\<exists>d\<in>set (ip_addresses (snd res)).
                 nb_address d = host_ip (hosts ! j) \<and> nb_last_seen d = last_seen (hosts ! j) \<and>
                 nb_status d = ''active''"
      unfolding res_def by (rule process_hosts_accepted_record [OF mem different acc])
  qed
  have failed_same: "filter (\<lambda>d. nb_address d = host_ip (hosts ! k)) (ip_addresses (snd res)) =
           filter (\<lambda>d. nb_address d = host_ip (hosts ! k)) (ip_addresses st)"
  proof -
    have parts: "hosts = take k hosts @ hosts ! k # drop (Suc k) hosts"
      using k by (rule id_take_nth_drop)
    define res1 where "res1 = process_hosts env (take k hosts) (r0, st)"
    define res2 where "res2 = process_host env (hosts ! k) res1"
    have res_eq: "res = process_hosts env (drop (Suc k) hosts) res2"
      unfolding res_def res2_def res1_def
      by (subst parts) (simp add: process_hosts_append)
    have dist: "distinct (map host_ip (take k hosts) @ host_ip (hosts ! k) #
                          map host_ip (drop (Suc k) hosts))"
      using different by (subst (asm) parts) simp
    have n1: "host_ip (hosts ! k) \<notin> host_ip ` set (take k hosts)" using dist by auto
    have n2: "host_ip (hosts ! k) \<notin> host_ip ` set (drop (Suc k) hosts)" using dist by auto
    have s1: "filter (\<lambda>d. nb_address d = host_ip (hosts ! k)) (ip_addresses (snd res1)) =
              filter (\<lambda>d. nb_address d = host_ip (hosts ! k)) (ip_addresses st)"
      unfolding res1_def using n1 by (rule process_hosts_other_address)
    have "ip_addresses (snd res2) =
            ip_addresses (snd (update_netbox_ip env (hosts ! k) (snd res1)))"
      using process_host_inventory [of env "hosts ! k" "fst res1" "snd res1"]
      by (simp add: res2_def)
    also have "\<dots> = ip_addresses (snd res1)"
      using k_fails by (simp add: update_failed_state)
    finally have s2: "ip_addresses (snd res2) = ip_addresses (snd res1)" .
    have "filter (\<lambda>d. nb_address d = host_ip (hosts ! k)) (ip_addresses (snd res)) =
          filter (\<lambda>d. nb_address d = host_ip (hosts ! k)) (ip_addresses (snd res2))"
      using process_hosts_other_address [OF n2, of env "fst res2" "snd res2"]
      by (simp add: res_eq)
    then show ?thesis using s1 s2 by simp
  qed
  show ?thesis
    using run counts upd one recs failed_same by blast
qed

text \<open>
  Witness for C8: the example run, three hosts, the write for the second one answered
  with status 400.
\<close>

theorem discovery_tolerates_one_failed_upsert_witness:
  "\<exists>rep st'. run_discovery example_discovery_env example_discovery_state =
                 (DiscoveryCompleted rep, st') \<and>
      total_hosts rep = 3 \<and> active_hosts rep = 3 \<and> updated_hosts rep = 2 \<and>
      (\<exists>d\<in>set (ip_addresses st').
          nb_address d = ''10.203.1.10'' \<and> nb_last_seen d = ''2025-01-01T00:00:01'') \<and>
      (\<exists>d\<in>set (ip_addresses st').
          nb_address d = ''10.203.1.30'' \<and> nb_last_seen d = ''2025-01-01T00:00:03'') \<and>
      filter (\<lambda>d. nb_address d = ''10.203.1.20'') (ip_addresses st') = []"
proof -
  have c: "test_netbox_connection example_discovery_env"
    by (simp add: test_netbox_connection_def example_discovery_env_def)
  have s: "site example_discovery_env = Some 1" by (simp add: example_discovery_env_def)
  have h: "example_hosts =
             concat (map (\<lambda>network. network_scan example_discovery_env (strip network))
                       (discovery_networks example_discovery_env))"
    by (simp add: example_discovery_env_def strip_def is_space_def)
  have d: "distinct (map host_ip example_hosts)" by (simp add: example_hosts_def)
  have k: "1 < length example_hosts" by (simp add: example_hosts_def)
  have f: "\<forall>s. \<not> fst (update_netbox_ip example_discovery_env (example_hosts ! 1) s)"
    by (simp add: update_netbox_ip_def example_discovery_env_def example_hosts_def Let_def)
  have o: "\<forall>j<length example_hosts. j \<noteq> 1 \<longrightarrow>
             (\<forall>s. fst (update_netbox_ip example_discovery_env (example_hosts ! j) s))"
    by (simp add: update_netbox_ip_def example_discovery_env_def example_hosts_def Let_def
          less_Suc_eq)
  have e: "filter (\<lambda>d. nb_address d = ''10.203.1.20'') (ip_addresses example_discovery_state) = []"
    by (simp add: example_discovery_state_def)
  have n: "length example_hosts = 3" "host_ip (example_hosts ! 1) = ''10.203.1.20''"
    "host_ip (example_hosts ! 0) = ''10.203.1.10''" "last_seen (example_hosts ! 0) = ''2025-01-01T00:00:01''"
    "host_ip (example_hosts ! 2) = ''10.203.1.30''" "last_seen (example_hosts ! 2) = ''2025-01-01T00:00:03''"
    by (simp_all add: example_hosts_def)
  obtain rep st' where r:
    "run_discovery example_discovery_env example_discovery_state = (DiscoveryCompleted rep, st')"
    "total_hosts rep = length example_hosts" "active_hosts rep = length example_hosts"
    "updated_hosts rep = length example_hosts - 1"
    "\<forall>j<length example_hosts. j \<noteq> 1 \<longrightarrow>
       (\<exists>d\<in>set (ip_addresses st').
          nb_address d = host_ip (example_hosts ! j) \<and>
          nb_last_seen d = last_seen (example_hosts ! j) \<and> nb_status d = ''active'')"
    "filter (\<lambda>d. nb_address d = host_ip (example_hosts ! 1)) (ip_addresses st') =
     filter (\<lambda>d. nb_address d = host_ip (example_hosts ! 1)) (ip_addresses example_discovery_state)"
    using discovery_tolerates_one_failed_upsert [OF c s h d k f o, of example_discovery_state]
    by blast
  have r0: "\<exists>d\<in>set (ip_addresses st').
          nb_address d = ''10.203.1.10'' \<and> nb_last_seen d = ''2025-01-01T00:00:01''"
    using r(5) n by (metis zero_less_numeral zero_neq_one)
  have r2: "\<exists>d\<in>set (ip_addresses st').
          nb_address d = ''10.203.1.30'' \<and> nb_last_seen d = ''2025-01-01T00:00:03''"
  proof -
    have "(2::nat) < length example_hosts" "(2::nat) \<noteq> 1" using n by simp_all
    with r(5) have "\<exists>d\<in>set (ip_addresses st').
          nb_address d = host_ip (example_hosts ! 2) \<and>
          nb_last_seen d = last_seen (example_hosts ! 2) \<and> nb_status d = ''active''"
      by blast
    then show ?thesis using n by auto
  qed
  have "filter (\<lambda>d. nb_address d = ''10.203.1.20'') (ip_addresses st') = []"
    using r(6) e n by simp
  then show ?thesis using r(1-4) r0 r2 n by auto
qed

end
